theory Spec2Isabelle
  imports Complex_Main
begin

section \<open>CapeEco: the storage schema and the presentation layer's decision code\<close>

text \<open>
  The development embeds the parts of the repository that are among its sources:
  \<^item> \<open>scripts/schema.sql\<close>: the enumeration types, the production and derived relations
    and the staging relations, as a small interpreter for the DDL statements the script
    runs, together with the checks PostgreSQL makes when a row is inserted;
  \<^item> the React components \<open>PropertySidebar.jsx\<close> and \<open>ReportView.jsx\<close> and the table
    module \<open>utils/constants.js\<close>: the pure computations that decide what is rendered
    (the biodiversity badge, the score bars, the offset panel).
  The backend (loader, resolver, rule engines) is not among the sources; where a property
  needs one of its functions, the function is modelled from the specification and marked
  so. JavaScript numbers are modelled as real numbers extended by the three non-finite
  values of IEEE arithmetic; rounding of doubles is not modelled.
\<close>

subsection \<open>The designation enumeration (schema.sql, lines 23-33)\<close>

datatype cba_category = PA | CA | CBA_1a | CBA_1b | CBA_1c | CBA_2 | ESA_1 | ESA_2 | ONA

text \<open>The labels of the enumeration, in the order \<open>CREATE TYPE capeeco.cba_category\<close> declares them.\<close>

definition cba_category_enum :: "cba_category list" where
  "cba_category_enum = [PA, CA, CBA_1a, CBA_1b, CBA_1c, CBA_2, ESA_1, ESA_2, ONA]"

fun cba_label :: "cba_category \<Rightarrow> string" where
  "cba_label PA = ''PA''"
| "cba_label CA = ''CA''"
| "cba_label CBA_1a = ''CBA 1a''"
| "cba_label CBA_1b = ''CBA 1b''"
| "cba_label CBA_1c = ''CBA 1c''"
| "cba_label CBA_2 = ''CBA 2''"
| "cba_label ESA_1 = ''ESA 1''"
| "cba_label ESA_2 = ''ESA 2''"
| "cba_label ONA = ''ONA''"

text \<open>
  PostgreSQL compares the values of an enumeration type by the position of their labels
  in the declaration: \<open>enum_position\<close> is that position, \<open>enum_lt\<close> the comparison \<open><\<close>.
\<close>

fun position_in :: "'a \<Rightarrow> 'a list \<Rightarrow> nat option" where
  "position_in x [] = None"
| "position_in x (y # ys) =
     (if x = y then Some 0 else map_option Suc (position_in x ys))"

definition enum_position :: "cba_category \<Rightarrow> nat option" where
  "enum_position c = position_in c cba_category_enum"

definition enum_lt :: "cba_category \<Rightarrow> cba_category \<Rightarrow> bool" where
  "enum_lt a b =
     (case (enum_position a, enum_position b) of
        (Some i, Some j) \<Rightarrow> i < j
      | _ \<Rightarrow> False)"

text \<open>
  The severity order as the specification words it, most severe first:
  Protected Area, Conservation Area, CBA 1a, CBA 1b, CBA 1c, CBA 2, ESA 1, ESA 2,
  Other Natural Area. \<open>more_severe a b\<close> reads "a is strictly more severe than b".
\<close>

definition severity_order_spec :: "cba_category list" where
  "severity_order_spec = [PA, CA, CBA_1a, CBA_1b, CBA_1c, CBA_2, ESA_1, ESA_2, ONA]"

definition more_severe :: "cba_category \<Rightarrow> cba_category \<Rightarrow> bool" where
  "more_severe a b =
     (case (position_in a severity_order_spec, position_in b severity_order_spec) of
        (Some i, Some j) \<Rightarrow> i < j
      | _ \<Rightarrow> False)"

subsection \<open>The frontend's tables (utils/constants.js)\<close>

record cba_style =
  fill :: string
  stroke :: string
  label :: string

text \<open>
  \<open>CBA_COLORS\<close> is an object literal; its keys are kept in the order they are written,
  so the table is an association list.
\<close>

definition CBA_COLORS :: "(string \<times> cba_style) list" where
  "CBA_COLORS =
    [(''PA'',     \<lparr>fill = ''#dc2626'', stroke = ''#991b1b'', label = ''Protected Area''\<rparr>),
     (''CA'',     \<lparr>fill = ''#dc2626'', stroke = ''#991b1b'', label = ''Conservation Area''\<rparr>),
     (''CBA 1a'', \<lparr>fill = ''#ef4444'', stroke = ''#b91c1c'', label = ''CBA 1a (Irreplaceable)''\<rparr>),
     (''CBA 1b'', \<lparr>fill = ''#f97316'', stroke = ''#c2410c'',
                  label = ''CBA 1b (Irreplaceable, low condition)''\<rparr>),
     (''CBA 1c'', \<lparr>fill = ''#fb923c'', stroke = ''#ea580c'', label = ''CBA 1c (Connectivity)''\<rparr>),
     (''CBA 2'',  \<lparr>fill = ''#f59e0b'', stroke = ''#b45309'', label = ''CBA 2 (Optimal)''\<rparr>),
     (''ESA 1'',  \<lparr>fill = ''#eab308'', stroke = ''#a16207'',
                  label = ''ESA 1 (Natural/Semi-natural)''\<rparr>),
     (''ESA 2'',  \<lparr>fill = ''#facc15'', stroke = ''#ca8a04'', label = ''ESA 2 (Modified)''\<rparr>),
     (''ONA'',    \<lparr>fill = ''#84cc16'', stroke = ''#4d7c0f'', label = ''Other Natural Area''\<rparr>)]"

record badge_style =
  color :: string
  text_class :: string
  badge_label :: string

definition BIO_STATUS :: "(string \<times> badge_style) list" where
  "BIO_STATUS =
    [(''no-go'',       \<lparr>color = ''bg-red-600'', text_class = ''text-white'', badge_label = ''No-Go''\<rparr>),
     (''exceptional'', \<lparr>color = ''bg-orange-500'', text_class = ''text-white'',
                        badge_label = ''Exceptional Only''\<rparr>),
     (''offset'',      \<lparr>color = ''bg-amber-500'', text_class = ''text-gray-900'',
                        badge_label = ''Offset Required''\<rparr>),
     (''clear'',       \<lparr>color = ''bg-green-500'', text_class = ''text-white'',
                        badge_label = ''No Constraints''\<rparr>)]"

definition GREENSTAR_COLORS :: "(string \<times> string) list" where
  "GREENSTAR_COLORS =
    [(''6-star'', ''text-emerald-400''),
     (''5-star'', ''text-green-400''),
     (''4-star'', ''text-lime-400''),
     (''3-star'', ''text-yellow-400''),
     (''Below rated'', ''text-gray-400'')]"

subsection \<open>The biodiversity badge (PropertySidebar.jsx, lines 39-46 and 186-193)\<close>

text \<open>
  A property payload as the sidebar reads it. A field that is missing or \<open>null\<close> in the
  JSON is \<open>None\<close>; \<open>property\<close> itself is \<open>null\<close> until the request returns.
\<close>

record bio_entry =
  cba_category :: "string option"
  overlap_pct :: "real option"

record property_payload =
  biodiversity :: "bio_entry list option"

text \<open>\<open>Array.prototype.includes\<close> on a list of string literals; a value that is not a string is in none.\<close>

definition js_includes :: "string list \<Rightarrow> string option \<Rightarrow> bool" where
  "js_includes xs v = (case v of None \<Rightarrow> False | Some s \<Rightarrow> s \<in> set xs)"

definition bioStatus :: "property_payload option \<Rightarrow> string" where
  "bioStatus property =
     (case property of
        None \<Rightarrow> ''clear''
      | Some p \<Rightarrow>
          (case biodiversity p of
             None \<Rightarrow> ''clear''
           | Some [] \<Rightarrow> ''clear''
           | Some (first # _) \<Rightarrow>
               (let top = cba_category first in
                if js_includes [''PA'', ''CA'', ''CBA 1a''] top then ''no-go''
                else if js_includes [''CBA 1b'', ''CBA 1c''] top then ''exceptional''
                else if js_includes [''CBA 2'', ''ESA 1'', ''ESA 2''] top then ''offset''
                else ''clear'')))"

text \<open>\<open>Badge\<close>: \<open>BIO_STATUS[status] || BIO_STATUS.clear\<close>.\<close>

definition Badge :: "string \<Rightarrow> badge_style option" where
  "Badge status =
     (case map_of BIO_STATUS status of
        Some s \<Rightarrow> Some s
      | None \<Rightarrow> map_of BIO_STATUS ''clear'')"

subsection \<open>JavaScript numbers and the score bars\<close>

datatype jsnum = Num real | PosInf | NegInf | NaN

text \<open>A JSON value read where a number is expected, and \<open>ToNumber\<close> on it.\<close>

datatype jsval = JUndefined | JNull | JNumber real

fun to_number :: "jsval \<Rightarrow> jsnum" where
  "to_number JUndefined = NaN"
| "to_number JNull = Num 0"
| "to_number (JNumber x) = Num x"

text \<open>
  Division of a number by a finite number (the \<open>max\<close> of a score bar is always a finite
  literal). Negative zero is not distinguished from zero.
\<close>

fun js_div :: "jsnum \<Rightarrow> real \<Rightarrow> jsnum" where
  "js_div NaN m = NaN"
| "js_div (Num s) m =
     (if m \<noteq> 0 then Num (s / m)
      else if s = 0 then NaN
      else if 0 < s then PosInf else NegInf)"
| "js_div PosInf m = (if 0 \<le> m then PosInf else NegInf)"
| "js_div NegInf m = (if 0 \<le> m then NegInf else PosInf)"

text \<open>Multiplication by a positive finite constant.\<close>

fun js_scale :: "jsnum \<Rightarrow> real \<Rightarrow> jsnum" where
  "js_scale (Num x) k = Num (x * k)"
| "js_scale x k = x"

text \<open>\<open>Math.min(x, c)\<close> for a finite \<open>c\<close>: \<open>NaN\<close> if \<open>x\<close> is.\<close>

fun js_min :: "jsnum \<Rightarrow> real \<Rightarrow> jsnum" where
  "js_min NaN c = NaN"
| "js_min (Num x) c = Num (min x c)"
| "js_min PosInf c = Num c"
| "js_min NegInf c = NegInf"

text \<open>\<open>ScoreBar\<close> (PropertySidebar.jsx, line 50): \<open>Math.min((score / max) * 100, 100)\<close>.\<close>

definition ScoreBar_pct :: "jsval \<Rightarrow> real \<Rightarrow> jsnum" where
  "ScoreBar_pct score mx = js_min (js_scale (js_div (to_number score) mx) 100) 100"

text \<open>
  \<open>ScoreGauge\<close> (ReportView.jsx, line 81):
  \<open>max > 0 ? Math.min((score / max) * 100, 100) : 0\<close>.
\<close>

definition ScoreGauge_pct :: "jsval \<Rightarrow> real \<Rightarrow> jsnum" where
  "ScoreGauge_pct score mx =
     (if 0 < mx then js_min (js_scale (js_div (to_number score) mx) 100) 100 else Num 0)"

text \<open>The five bars of the sidebar (lines 363-367) and the five gauges of the report (lines 761-765).\<close>

record score_slot =
  slot_label :: string
  slot_field :: string
  slot_max :: nat

definition sidebar_score_bars :: "score_slot list" where
  "sidebar_score_bars =
    [\<lparr>slot_label = ''Energy'', slot_field = ''energy'', slot_max = 35\<rparr>,
     \<lparr>slot_label = ''Water'', slot_field = ''water'', slot_max = 25\<rparr>,
     \<lparr>slot_label = ''Ecology'', slot_field = ''ecology'', slot_max = 20\<rparr>,
     \<lparr>slot_label = ''Location'', slot_field = ''location'', slot_max = 10\<rparr>,
     \<lparr>slot_label = ''Materials'', slot_field = ''materials_innovation'', slot_max = 10\<rparr>]"

definition report_score_gauges :: "score_slot list" where
  "report_score_gauges =
    [\<lparr>slot_label = ''Energy'', slot_field = ''energy'', slot_max = 35\<rparr>,
     \<lparr>slot_label = ''Water'', slot_field = ''water'', slot_max = 25\<rparr>,
     \<lparr>slot_label = ''Ecology'', slot_field = ''ecology'', slot_max = 20\<rparr>,
     \<lparr>slot_label = ''Location'', slot_field = ''location'', slot_max = 10\<rparr>,
     \<lparr>slot_label = ''Materials'', slot_field = ''materials_innovation'', slot_max = 10\<rparr>]"

text \<open>The denominator both views print after the total: \<open>{total_score}/100\<close>.\<close>

definition total_score_denominator :: nat where
  "total_score_denominator = 100"

subsection \<open>The data definition statements of schema.sql\<close>

text \<open>
  The column types the script uses. \<open>GEOMETRY g srid\<close> is \<open>geometry(g, srid)\<close>;
  \<open>ENUM n\<close> is the enumeration type \<open>capeeco.n\<close>.
\<close>

datatype sql_type =
    BIGSERIAL | SERIAL | INTEGER | BIGINT | VARCHAR nat | TEXT | DOUBLE_PRECISION
  | BOOLEAN | TIMESTAMPTZ | DATE | GEOMETRY string nat | ENUM string

text \<open>A column definition as it is written: name, type, and the column constraints after it.\<close>

datatype col_constraint =
    PRIMARY_KEY | UNIQUE | NOT_NULL | REFERENCES string string | DEFAULT string

datatype col_spec = Col string sql_type "col_constraint list"

datatype ddl =
    CREATE_TABLE string "col_spec list" "string list list"
  | CREATE_TABLE_LIKE_INCLUDING_ALL string string
  | DROP_CONSTRAINT_IF_EXISTS string string

text \<open>What the catalog keeps of a relation.\<close>

record column =
  col_name :: string
  col_type :: sql_type
  col_not_null :: bool
  col_default :: "string option"

datatype constraint_kind =
    PrimaryKeyOn "string list"
  | UniqueOn "string list"
  | ForeignKeyOn "string list" string "string list"

record table_def =
  columns :: "column list"
  constraints :: "(string \<times> constraint_kind) list"

type_synonym catalog = "(string \<times> table_def) list"

text \<open>
  The names PostgreSQL gives to constraints that are declared without one:
  \<open>t_pkey\<close>, \<open>t_c1_..._cn_key\<close>, \<open>t_c_fkey\<close>.
\<close>

fun join_underscore :: "string list \<Rightarrow> string" where
  "join_underscore [] = []"
| "join_underscore [c] = c"
| "join_underscore (c # cs) = c @ ''_'' @ join_underscore cs"

fun default_name :: "string \<Rightarrow> constraint_kind \<Rightarrow> string" where
  "default_name t (PrimaryKeyOn cs) = t @ ''_pkey''"
| "default_name t (UniqueOn cs) = t @ ''_'' @ join_underscore cs @ ''_key''"
| "default_name t (ForeignKeyOn cs rt rcs) = t @ ''_'' @ join_underscore cs @ ''_fkey''"

fun is_serial :: "sql_type \<Rightarrow> bool" where
  "is_serial BIGSERIAL = True"
| "is_serial SERIAL = True"
| "is_serial _ = False"

fun declared_default :: "col_constraint list \<Rightarrow> string option" where
  "declared_default [] = None"
| "declared_default (DEFAULT e # ms) = Some e"
| "declared_default (_ # ms) = declared_default ms"

text \<open>
  A serial column is \<open>NOT NULL\<close> and defaults to the next value of its sequence; a
  primary-key column is \<open>NOT NULL\<close>.
\<close>

fun elaborate_column :: "string \<Rightarrow> col_spec \<Rightarrow> column" where
  "elaborate_column t (Col c ty ms) =
     \<lparr>col_name = c, col_type = ty,
      col_not_null = (NOT_NULL \<in> set ms \<or> PRIMARY_KEY \<in> set ms \<or> is_serial ty),
      col_default =
        (if is_serial ty then Some (''nextval('' @ t @ ''_'' @ c @ ''_seq)'')
         else declared_default ms)\<rparr>"

fun constraint_of :: "string \<Rightarrow> col_constraint \<Rightarrow> constraint_kind list" where
  "constraint_of c PRIMARY_KEY = [PrimaryKeyOn [c]]"
| "constraint_of c UNIQUE = [UniqueOn [c]]"
| "constraint_of c (REFERENCES rt rc) = [ForeignKeyOn [c] rt [rc]]"
| "constraint_of c _ = []"

fun column_constraints :: "col_spec \<Rightarrow> constraint_kind list" where
  "column_constraints (Col c ty ms) = concat (map (constraint_of c) ms)"

definition named :: "string \<Rightarrow> constraint_kind \<Rightarrow> string \<times> constraint_kind" where
  "named t k = (default_name t k, k)"

definition elaborate_table :: "string \<Rightarrow> col_spec list \<Rightarrow> string list list \<Rightarrow> table_def" where
  "elaborate_table t cols uniques =
     \<lparr>columns = map (elaborate_column t) cols,
      constraints =
        map (named t) (concat (map column_constraints cols) @ map UniqueOn uniques)\<rparr>"

fun referenced_tables :: "constraint_kind \<Rightarrow> string list" where
  "referenced_tables (ForeignKeyOn cs rt rcs) = [rt]"
| "referenced_tables _ = []"

text \<open>
  \<open>LIKE src INCLUDING ALL\<close> copies the columns with their types, \<open>NOT NULL\<close> marks and
  defaults, and the primary-key and unique constraints (they come with the indexes),
  named afresh for the new relation. Foreign keys are never copied.
\<close>

fun copied_by_like :: "constraint_kind \<Rightarrow> bool" where
  "copied_by_like (ForeignKeyOn cs rt rcs) = False"
| "copied_by_like _ = True"

definition like_including_all :: "string \<Rightarrow> table_def \<Rightarrow> table_def" where
  "like_including_all t src =
     \<lparr>columns = columns src,
      constraints = map (named t) (filter copied_by_like (map snd (constraints src)))\<rparr>"

text \<open>
  One statement. \<open>None\<close> is an error that aborts the script: a relation that exists
  already, or a relation named by \<open>LIKE\<close>, \<open>REFERENCES\<close> or \<open>ALTER TABLE\<close> that does not.
\<close>

fun exec_ddl :: "ddl \<Rightarrow> catalog \<Rightarrow> catalog option" where
  "exec_ddl (CREATE_TABLE t cols uniques) cat =
     (let td = elaborate_table t cols uniques in
      if t \<in> set (map fst cat) then None
      else if \<not> list_all (\<lambda>rt. rt \<in> set (map fst cat))
                 (concat (map (referenced_tables \<circ> snd) (constraints td))) then None
      else Some (cat @ [(t, td)]))"
| "exec_ddl (CREATE_TABLE_LIKE_INCLUDING_ALL t src) cat =
     (if t \<in> set (map fst cat) then None
      else case map_of cat src of
             None \<Rightarrow> None
           | Some sd \<Rightarrow> Some (cat @ [(t, like_including_all t sd)]))"
| "exec_ddl (DROP_CONSTRAINT_IF_EXISTS t n) cat =
     (case map_of cat t of
        None \<Rightarrow> None
      | Some td \<Rightarrow>
          Some (map (\<lambda>(t', td').
                  if t' = t
                  then (t', td'\<lparr>constraints := filter (\<lambda>(n', k). n' \<noteq> n) (constraints td')\<rparr>)
                  else (t', td')) cat))"

fun run_ddl :: "ddl list \<Rightarrow> catalog \<Rightarrow> catalog option" where
  "run_ddl [] cat = Some cat"
| "run_ddl (s # ss) cat =
     (case exec_ddl s cat of None \<Rightarrow> None | Some cat' \<Rightarrow> run_ddl ss cat')"

text \<open>The relations of the script that the load pipeline stages and joins.\<close>

definition properties_columns :: "col_spec list" where
  "properties_columns =
   [Col ''id'' BIGSERIAL [PRIMARY_KEY],
    Col ''objectid'' INTEGER [],
    Col ''sg26_code'' (VARCHAR 30) [UNIQUE, NOT_NULL],
    Col ''sl_parcel_key'' BIGINT [],
    Col ''erf_number'' (VARCHAR 50) [],
    Col ''address_number'' INTEGER [],
    Col ''address_suffix'' (VARCHAR 10) [],
    Col ''street_name'' (VARCHAR 200) [],
    Col ''street_type'' (VARCHAR 50) [],
    Col ''suburb'' (VARCHAR 200) [],
    Col ''alt_suburb_name'' (VARCHAR 200) [],
    Col ''ward'' (VARCHAR 10) [],
    Col ''subcouncil'' (VARCHAR 10) [],
    Col ''legal_status'' (VARCHAR 50) [],
    Col ''zoning_raw'' TEXT [],
    Col ''zoning_primary'' (VARCHAR 200) [],
    Col ''area_sqm'' DOUBLE_PRECISION [],
    Col ''area_ha'' DOUBLE_PRECISION [],
    Col ''centroid_lon'' DOUBLE_PRECISION [],
    Col ''centroid_lat'' DOUBLE_PRECISION [],
    Col ''full_address'' TEXT [],
    Col ''geom'' (GEOMETRY ''MultiPolygon'' 4326) [NOT_NULL],
    Col ''created_at'' TIMESTAMPTZ [DEFAULT ''NOW()'']]"

definition create_properties :: ddl where
  "create_properties = CREATE_TABLE ''properties'' properties_columns []"

definition biodiversity_areas_columns :: "col_spec list" where
  "biodiversity_areas_columns =
   [Col ''id'' BIGSERIAL [PRIMARY_KEY],
    Col ''objectid'' INTEGER [],
    Col ''cba_category'' (ENUM ''cba_category'') [NOT_NULL],
    Col ''cba_name'' (VARCHAR 200) [],
    Col ''subtype'' TEXT [],
    Col ''sdf_category'' (VARCHAR 100) [],
    Col ''description'' TEXT [],
    Col ''significance'' TEXT [],
    Col ''objective'' TEXT [],
    Col ''action'' TEXT [],
    Col ''compatible_use'' TEXT [],
    Col ''habitat_cond'' (ENUM ''habitat_condition'') [],
    Col ''esa_significance'' (VARCHAR 100) [],
    Col ''protected_area'' (VARCHAR 200) [],
    Col ''proclaimed'' (VARCHAR 100) [],
    Col ''managed'' BOOLEAN [],
    Col ''primary_class'' (VARCHAR 100) [],
    Col ''area_ha'' DOUBLE_PRECISION [],
    Col ''perimeter_m'' DOUBLE_PRECISION [],
    Col ''geom'' (GEOMETRY ''MultiPolygon'' 4326) [NOT_NULL],
    Col ''created_at'' TIMESTAMPTZ [DEFAULT ''NOW()'']]"

definition create_biodiversity_areas :: ddl where
  "create_biodiversity_areas = CREATE_TABLE ''biodiversity_areas'' biodiversity_areas_columns []"

definition ecosystem_types_columns :: "col_spec list" where
  "ecosystem_types_columns =
   [Col ''id'' BIGSERIAL [PRIMARY_KEY],
    Col ''objectid'' INTEGER [],
    Col ''vegetation_type'' (VARCHAR 200) [],
    Col ''vegetation_subtype'' (VARCHAR 200) [],
    Col ''community'' (VARCHAR 200) [],
    Col ''threat_status'' (ENUM ''ecosystem_threat_status'') [],
    Col ''area_ha'' DOUBLE_PRECISION [],
    Col ''perimeter_m'' DOUBLE_PRECISION [],
    Col ''geom'' (GEOMETRY ''MultiPolygon'' 4326) [NOT_NULL],
    Col ''created_at'' TIMESTAMPTZ [DEFAULT ''NOW()'']]"

definition create_ecosystem_types :: ddl where
  "create_ecosystem_types = CREATE_TABLE ''ecosystem_types'' ecosystem_types_columns []"

definition heritage_sites_columns :: "col_spec list" where
  "heritage_sites_columns =
   [Col ''id'' BIGSERIAL [PRIMARY_KEY],
    Col ''objectid'' INTEGER [],
    Col ''source'' (VARCHAR 20) [NOT_NULL],
    Col ''site_name'' (VARCHAR 500) [],
    Col ''heritage_category'' INTEGER [],
    Col ''resource_type_1'' (VARCHAR 200) [],
    Col ''resource_type_2'' (VARCHAR 200) [],
    Col ''description'' TEXT [],
    Col ''architectural_style'' (VARCHAR 200) [],
    Col ''period'' (VARCHAR 200) [],
    Col ''nhra_status'' (VARCHAR 200) [],
    Col ''city_grading'' (VARCHAR 200) [],
    Col ''street_address'' TEXT [],
    Col ''area_ha'' DOUBLE_PRECISION [],
    Col ''geom'' (GEOMETRY ''MultiPolygon'' 4326) [NOT_NULL],
    Col ''created_at'' TIMESTAMPTZ [DEFAULT ''NOW()'']]"

definition create_heritage_sites :: ddl where
  "create_heritage_sites = CREATE_TABLE ''heritage_sites'' heritage_sites_columns []"

definition address_points_columns :: "col_spec list" where
  "address_points_columns =
   [Col ''id'' BIGSERIAL [PRIMARY_KEY],
    Col ''objectid'' INTEGER [],
    Col ''address_number'' INTEGER [],
    Col ''address_prefix'' (VARCHAR 10) [],
    Col ''address_suffix'' (VARCHAR 10) [],
    Col ''suburb'' (VARCHAR 200) [],
    Col ''street_name'' (VARCHAR 200) [],
    Col ''street_type'' (VARCHAR 50) [],
    Col ''full_address'' (VARCHAR 500) [],
    Col ''property_id'' BIGINT [],
    Col ''geom'' (GEOMETRY ''Point'' 4326) [NOT_NULL],
    Col ''created_at'' TIMESTAMPTZ [DEFAULT ''NOW()'']]"

definition create_address_points :: ddl where
  "create_address_points = CREATE_TABLE ''address_points'' address_points_columns []"

definition property_biodiversity_columns :: "col_spec list" where
  "property_biodiversity_columns =
   [Col ''id'' BIGSERIAL [PRIMARY_KEY],
    Col ''property_id'' BIGINT [NOT_NULL, REFERENCES ''properties'' ''id''],
    Col ''biodiversity_area_id'' BIGINT [NOT_NULL, REFERENCES ''biodiversity_areas'' ''id''],
    Col ''cba_category'' (ENUM ''cba_category'') [NOT_NULL],
    Col ''habitat_condition'' (ENUM ''habitat_condition'') [],
    Col ''overlap_area_sqm'' DOUBLE_PRECISION [],
    Col ''overlap_pct'' DOUBLE_PRECISION [],
    Col ''created_at'' TIMESTAMPTZ [DEFAULT ''NOW()'']]"

definition create_property_biodiversity :: ddl where
  "create_property_biodiversity = CREATE_TABLE ''property_biodiversity'' property_biodiversity_columns [[''property_id'', ''biodiversity_area_id'']]"

definition property_ecosystems_columns :: "col_spec list" where
  "property_ecosystems_columns =
   [Col ''id'' BIGSERIAL [PRIMARY_KEY],
    Col ''property_id'' BIGINT [NOT_NULL, REFERENCES ''properties'' ''id''],
    Col ''ecosystem_type_id'' BIGINT [NOT_NULL, REFERENCES ''ecosystem_types'' ''id''],
    Col ''vegetation_type'' (VARCHAR 200) [],
    Col ''threat_status'' (ENUM ''ecosystem_threat_status'') [],
    Col ''overlap_area_sqm'' DOUBLE_PRECISION [],
    Col ''overlap_pct'' DOUBLE_PRECISION [],
    Col ''created_at'' TIMESTAMPTZ [DEFAULT ''NOW()'']]"

definition create_property_ecosystems :: ddl where
  "create_property_ecosystems = CREATE_TABLE ''property_ecosystems'' property_ecosystems_columns [[''property_id'', ''ecosystem_type_id'']]"

text \<open>
  The script, in its order (lines 64-365), after \<open>DROP SCHEMA ... CASCADE; CREATE SCHEMA\<close>
  has emptied the catalog. The relations left out (wetlands, urban edges, zoning
  overlays, solar installations, focus areas, urban-edge flags, offset calculations,
  rainfall, solar potential, users) are neither staged nor referenced by the ones kept.
\<close>

definition schema_sql :: "ddl list" where
  "schema_sql =
    [create_properties,
     create_biodiversity_areas,
     create_ecosystem_types,
     create_heritage_sites,
     create_address_points,
     create_property_biodiversity,
     create_property_ecosystems,
     CREATE_TABLE_LIKE_INCLUDING_ALL ''staging_properties'' ''properties'',
     CREATE_TABLE_LIKE_INCLUDING_ALL ''staging_biodiversity'' ''biodiversity_areas'',
     CREATE_TABLE_LIKE_INCLUDING_ALL ''staging_ecosystem_types'' ''ecosystem_types'',
     CREATE_TABLE_LIKE_INCLUDING_ALL ''staging_address_points'' ''address_points'',
     CREATE_TABLE_LIKE_INCLUDING_ALL ''staging_heritage'' ''heritage_sites'',
     DROP_CONSTRAINT_IF_EXISTS ''staging_properties'' ''staging_properties_sg26_code_key'',
     DROP_CONSTRAINT_IF_EXISTS ''staging_properties'' ''staging_properties_pkey'',
     DROP_CONSTRAINT_IF_EXISTS ''staging_biodiversity'' ''staging_biodiversity_pkey'',
     DROP_CONSTRAINT_IF_EXISTS ''staging_ecosystem_types'' ''staging_ecosystem_types_pkey'',
     DROP_CONSTRAINT_IF_EXISTS ''staging_address_points'' ''staging_address_points_pkey'',
     DROP_CONSTRAINT_IF_EXISTS ''staging_heritage'' ''staging_heritage_pkey'']"

definition capeeco_schema :: "catalog option" where
  "capeeco_schema = run_ddl schema_sql []"

definition staging_tables :: "(string \<times> string) list" where
  "staging_tables =
    [(''staging_properties'', ''properties''),
     (''staging_biodiversity'', ''biodiversity_areas''),
     (''staging_ecosystem_types'', ''ecosystem_types''),
     (''staging_address_points'', ''address_points''),
     (''staging_heritage'', ''heritage_sites'')]"

definition capeeco_catalog :: catalog where
  "capeeco_catalog = (case capeeco_schema of None \<Rightarrow> [] | Some cat \<Rightarrow> cat)"

fun is_primary_key :: "constraint_kind \<Rightarrow> bool" where
  "is_primary_key (PrimaryKeyOn cs) = True"
| "is_primary_key _ = False"

fun is_unique :: "constraint_kind \<Rightarrow> bool" where
  "is_unique (UniqueOn cs) = True"
| "is_unique _ = False"

fun is_foreign_key :: "constraint_kind \<Rightarrow> bool" where
  "is_foreign_key (ForeignKeyOn cs rt rcs) = True"
| "is_foreign_key _ = False"

definition unconstrained_kind :: "string \<times> constraint_kind \<Rightarrow> bool" where
  "unconstrained_kind nk =
     (\<not> is_primary_key (snd nk) \<and> \<not> is_unique (snd nk) \<and> \<not> is_foreign_key (snd nk))"

text \<open>
  A staging relation mirrors its production relation when both exist, their column lists
  (names, types, \<open>NOT NULL\<close> marks, defaults) are equal, and no constraint of the staging
  relation is a primary key, a unique constraint or a foreign key.
\<close>

definition staging_mirrors :: "catalog \<Rightarrow> string \<times> string \<Rightarrow> bool" where
  "staging_mirrors cat sp =
     (case (map_of cat (fst sp), map_of cat (snd sp)) of
        (Some st, Some pt) \<Rightarrow>
          columns st = columns pt \<and> list_all unconstrained_kind (constraints st)
      | _ \<Rightarrow> False)"

subsection \<open>Rows, and the checks PostgreSQL makes on INSERT\<close>

datatype sql_value =
    NULL | IntV int | DoubleV real | TextV string | BoolV bool | TimeV nat
  | GeomV string nat

text \<open>
  A row gives values to columns by name, as stored (defaults already filled in); a
  column it does not mention is \<open>NULL\<close>.
\<close>

type_synonym row = "(string \<times> sql_value) list"

definition value_of :: "row \<Rightarrow> string \<Rightarrow> sql_value" where
  "value_of r c = (case map_of r c of None \<Rightarrow> NULL | Some v \<Rightarrow> v)"

definition key_of :: "row \<Rightarrow> string list \<Rightarrow> sql_value list" where
  "key_of r cs = map (value_of r) cs"

text \<open>The labels of the three enumeration types (schema.sql, lines 23-49).\<close>

definition enum_labels :: "string \<Rightarrow> string list" where
  "enum_labels n =
     (if n = ''cba_category'' then map cba_label cba_category_enum
      else if n = ''ecosystem_threat_status'' then [''CR'', ''EN'', ''VU'', ''LT'']
      else if n = ''habitat_condition'' then
        [''Natural'', ''Good'', ''Fair'', ''Poor'', ''Irreversibly modified'',
         ''Natural aquatic habitat'']
      else [])"

fun conforms :: "sql_type \<Rightarrow> sql_value \<Rightarrow> bool" where
  "conforms ty NULL = True"
| "conforms BIGSERIAL (IntV i) = (- (2 ^ 63) \<le> i \<and> i < 2 ^ 63)"
| "conforms BIGINT (IntV i) = (- (2 ^ 63) \<le> i \<and> i < 2 ^ 63)"
| "conforms SERIAL (IntV i) = (- (2 ^ 31) \<le> i \<and> i < 2 ^ 31)"
| "conforms INTEGER (IntV i) = (- (2 ^ 31) \<le> i \<and> i < 2 ^ 31)"
| "conforms (VARCHAR n) (TextV s) = (length s \<le> n)"
| "conforms TEXT (TextV s) = True"
| "conforms DOUBLE_PRECISION (DoubleV x) = True"
| "conforms BOOLEAN (BoolV b) = True"
| "conforms TIMESTAMPTZ (TimeV t) = True"
| "conforms DATE (TimeV t) = True"
| "conforms (GEOMETRY g srid) (GeomV g' srid') =
     ((g = ''Geometry'' \<or> g = g') \<and> srid = srid')"
| "conforms (ENUM n) (TextV s) = (s \<in> set (enum_labels n))"
| "conforms _ _ = False"

type_synonym database = "string \<Rightarrow> row list"

definition empty_db :: database where
  "empty_db = (\<lambda>t. [])"

datatype sql_error =
    UndefinedTable string
  | UndefinedColumn string
  | InvalidValue string
  | NotNullViolation string
  | UniqueViolation string
  | ForeignKeyViolation string

text \<open>
  A key (primary or unique) is violated by a stored row with the same key, unless the
  new key has a \<open>NULL\<close>; a foreign key by a non-null key with no row to refer to.
\<close>

fun violated :: "database \<Rightarrow> string \<Rightarrow> row \<Rightarrow> constraint_kind \<Rightarrow> bool" where
  "violated db t r (PrimaryKeyOn cs) =
     (NULL \<notin> set (key_of r cs) \<and> list_ex (\<lambda>r'. key_of r' cs = key_of r cs) (db t))"
| "violated db t r (UniqueOn cs) =
     (NULL \<notin> set (key_of r cs) \<and> list_ex (\<lambda>r'. key_of r' cs = key_of r cs) (db t))"
| "violated db t r (ForeignKeyOn cs rt rcs) =
     (NULL \<notin> set (key_of r cs) \<and> \<not> list_ex (\<lambda>r'. key_of r' rcs = key_of r cs) (db rt))"

fun violation :: "string \<times> constraint_kind \<Rightarrow> sql_error" where
  "violation (n, ForeignKeyOn cs rt rcs) = ForeignKeyViolation n"
| "violation (n, _) = UniqueViolation n"

text \<open>
  \<open>INSERT INTO t\<close> of one row: the columns must exist and the values fit their types,
  then the \<open>NOT NULL\<close> marks, the keys and the foreign keys are checked, in this order.
  The row is appended when every check passes.
\<close>

definition insert_row :: "catalog \<Rightarrow> database \<Rightarrow> string \<Rightarrow> row \<Rightarrow> sql_error + database" where
  "insert_row cat db t r =
     (case map_of cat t of
        None \<Rightarrow> Inl (UndefinedTable t)
      | Some td \<Rightarrow>
          (case find (\<lambda>c. c \<notin> set (map col_name (columns td))) (map fst r) of
             Some c \<Rightarrow> Inl (UndefinedColumn c)
           | None \<Rightarrow>
          (case find (\<lambda>c. \<not> conforms (col_type c) (value_of r (col_name c))) (columns td) of
             Some c \<Rightarrow> Inl (InvalidValue (col_name c))
           | None \<Rightarrow>
          (case find (\<lambda>c. col_not_null c \<and> value_of r (col_name c) = NULL) (columns td) of
             Some c \<Rightarrow> Inl (NotNullViolation (col_name c))
           | None \<Rightarrow>
          (case find (\<lambda>nk. violated db t r (snd nk))
                  (filter (\<lambda>nk. \<not> is_foreign_key (snd nk)) (constraints td) @
                   filter (\<lambda>nk. is_foreign_key (snd nk)) (constraints td)) of
             Some nk \<Rightarrow> Inl (violation nk)
           | None \<Rightarrow> Inr (db(t := db t @ [r])))))))"

text \<open>
  A sequence of inserts, each its own transaction: one that fails leaves the database as
  it was and the next one runs.
\<close>

fun run_inserts :: "catalog \<Rightarrow> database \<Rightarrow> (string \<times> row) list \<Rightarrow> database" where
  "run_inserts cat db [] = db"
| "run_inserts cat db ((t, r) # rest) =
     (case insert_row cat db t r of
        Inl e \<Rightarrow> run_inserts cat db rest
      | Inr db' \<Rightarrow> run_inserts cat db' rest)"

text \<open>The columns of a relation that are marked \<open>NOT NULL\<close>.\<close>

definition not_null_columns :: "table_def \<Rightarrow> string list" where
  "not_null_columns td = map col_name (filter col_not_null (columns td))"

definition has_not_null_geom :: "catalog \<Rightarrow> string \<Rightarrow> bool" where
  "has_not_null_geom cat t =
     (case map_of cat t of
        None \<Rightarrow> False
      | Some td \<Rightarrow> ''geom'' \<in> set (not_null_columns td))"

subsection \<open>A sample row\<close>

text \<open>
  A parcel with the columns the loader must give; \<open>sample_parcel v\<close> has \<open>v\<close> as its
  geometry.
\<close>

definition sample_parcel :: "sql_value \<Rightarrow> row" where
  "sample_parcel geometry =
     [(''id'', IntV 1), (''sg26_code'', TextV ''C01600070000024100000''),
      (''erf_number'', TextV ''241''), (''geom'', geometry)]"

subsection \<open>The offset panels (PropertySidebar.jsx and ReportView.jsx)\<close>

text \<open>
  The offset analysis payload as the two views read it; a field that is missing or
  \<open>null\<close> is \<open>None\<close>.
\<close>

record offset_analysis =
  error :: "string option"
  offset_applicable :: "bool option"
  designation :: "string option"
  base_ratio :: "real option"
  condition_multiplier :: "real option"
  urban_edge_adjustment :: "real option"
  final_ratio :: "real option"
  development_footprint_ha :: "real option"
  required_offset_ha :: "real option"
  offset_cost_estimate_zar :: "real option"

text \<open>Truthiness of a string and of a boolean field, and the comparison \<open>x > 0\<close>.\<close>

definition truthy_string :: "string option \<Rightarrow> bool" where
  "truthy_string v = (case v of None \<Rightarrow> False | Some s \<Rightarrow> s \<noteq> [])"

definition truthy_bool :: "bool option \<Rightarrow> bool" where
  "truthy_bool v = (case v of None \<Rightarrow> False | Some b \<Rightarrow> b)"

definition js_gt0 :: "real option \<Rightarrow> bool" where
  "js_gt0 v = (case v of None \<Rightarrow> False | Some x \<Rightarrow> 0 < x)"

text \<open>
  \<open>Section\<close> (PropertySidebar.jsx, lines 77-94) keeps a state \<open>open\<close>, which starts as
  \<open>defaultOpen\<close> (\<open>false\<close> when the caller passes none) and which every click on the title
  flips; the title is always rendered, the children only while the section is open:
  \<open>{open && <div>{children}</div>}\<close>.
\<close>

definition Section_initial :: "bool option \<Rightarrow> bool" where
  "Section_initial defaultOpen = (case defaultOpen of None \<Rightarrow> False | Some d \<Rightarrow> d)"

definition Section_click :: "bool \<Rightarrow> bool" where
  "Section_click opened = (\<not> opened)"

definition Section :: "bool \<Rightarrow> 'a list \<Rightarrow> 'a list" where
  "Section opened children = (if opened then children else [])"

text \<open>
  The children of the sidebar's section "Offset Requirement" (lines 419-426): the labels
  of its rows, the last one under the guard \<open>biodiversity.offset_cost_estimate_zar > 0\<close>.
\<close>

definition offset_requirement_rows :: "offset_analysis \<Rightarrow> string list" where
  "offset_requirement_rows b =
     [''Designation'', ''Base Ratio'', ''Required Offset''] @
     (if js_gt0 (offset_cost_estimate_zar b) then [''Est. Cost''] else [])"

text \<open>
  The state of \<open>PropertySidebar\<close> that decides whether the section is on screen (lines
  136-140 and 78): the \<open>propertyId\<close> it is given, \<open>loading\<close>, the loaded \<open>property\<close>, the analysis
  \<open>biodiversity\<close> that \<open>runAnalysis\<close> stores, and the \<open>open\<close> state of the section.
\<close>

record sidebar_state =
  propertyId :: "int option"
  loading :: bool
  property_loaded :: "property_payload option"
  biodiversity_analysis :: "offset_analysis option"
  offset_section_open :: bool

definition truthy_id :: "int option \<Rightarrow> bool" where
  "truthy_id v = (case v of None \<Rightarrow> False | Some i \<Rightarrow> i \<noteq> 0)"

text \<open>
  The rows of the offset panel that the sidebar has on screen; \<open>None\<close> when the section is
  not rendered at all. The component returns \<open>null\<close> without a \<open>propertyId\<close> (line 184),
  shows a spinner while \<open>loading\<close> and "Property not found" without a \<open>property\<close> (lines
  207-211 and 430-434), and renders the section under \<open>biodiversity && !biodiversity.error
  && biodiversity.offset_applicable\<close> (line 417). The section is given no \<open>defaultOpen\<close>
  (line 418), so it is collapsed until its title is clicked.
\<close>

definition sidebar_offset_panel :: "sidebar_state \<Rightarrow> string list option" where
  "sidebar_offset_panel st =
     (if \<not> truthy_id (propertyId st) then None
      else if loading st then None
      else case property_loaded st of
             None \<Rightarrow> None
           | Some pr \<Rightarrow>
               (case biodiversity_analysis st of
                  None \<Rightarrow> None
                | Some b \<Rightarrow>
                    if \<not> truthy_string (error b) \<and> truthy_bool (offset_applicable b)
                    then Some (Section (offset_section_open st) (offset_requirement_rows b))
                    else None))"

text \<open>
  The offset block of the report (ReportView.jsx, lines 651-667): \<open>bio.offset_analysis &&
  bio.offset_analysis.offset_applicable && (...)\<close>, the last row under the guard
  \<open>bio.offset_analysis.offset_cost_estimate_zar > 0\<close>.
\<close>

definition report_offset_panel :: "offset_analysis option \<Rightarrow> string list option" where
  "report_offset_panel offset_analysis =
     (case offset_analysis of
        None \<Rightarrow> None
      | Some b \<Rightarrow>
          if truthy_bool (offset_applicable b)
          then Some ([''Designation'', ''Base Ratio'', ''Condition Multiplier'',
                      ''Urban Edge Adj.'', ''Final Ratio'', ''Dev. Footprint'',
                      ''Required Offset''] @
                     (if js_gt0 (offset_cost_estimate_zar b) then [''Est. Cost''] else []))
          else None)"

text \<open>Whether the row "Est. Cost" is among the rows on screen.\<close>

definition cost_displayed :: "string list option \<Rightarrow> bool" where
  "cost_displayed panel = (case panel of None \<Rightarrow> False | Some rows \<Rightarrow> ''Est. Cost'' \<in> set rows)"

text \<open>
  The state of \<open>ReportView\<close> (lines 407-409) and the part of the report payload that the
  offset block reads, \<open>data.biodiversity.offset_analysis\<close>. The component shows a spinner
  while \<open>loading\<close>, the message when \<open>error\<close> is set, nothing without \<open>data\<close> (lines
  435-464), and the report otherwise; its sections do not collapse.
\<close>

record report_payload =
  bio_offset_analysis :: "offset_analysis option"

record report_state =
  report_loading :: bool
  report_error :: "string option"
  report_data :: "report_payload option"

definition ReportView_offset_panel :: "report_state \<Rightarrow> string list option" where
  "ReportView_offset_panel rs =
     (if report_loading rs then None
      else if truthy_string (report_error rs) then None
      else case report_data rs of
             None \<Rightarrow> None
           | Some d \<Rightarrow> report_offset_panel (bio_offset_analysis d))"

subsection \<open>The rule engines, from the specification\<close>

text \<open>
  Modelled from the spec: the Offset Rule Engine \<open>calculate_offset\<close> (section 4.5); the
  backend that implements it is not among the sources. The rule configuration is passed
  as a read-only argument. A designation key maps to \<open>Some r\<close> when the configuration
  gives it the ratio \<open>r\<close> (zero included) and to \<open>None\<close> when it lists the designation
  without a ratio of its own, in which case the ratio of the ecosystem threat status is
  used; a key the configuration does not have is a configuration error.
\<close>

datatype threat_status = CR | EN | VU | LT

datatype habitat_condition =
    Natural | Good | Fair | Poor | Irreversibly_modified | Natural_aquatic_habitat

record rule_configuration =
  designation_ratio :: "string \<Rightarrow> real option option"
  ecosystem_ratio :: "threat_status \<Rightarrow> real option"
  condition_multipliers :: "habitat_condition \<Rightarrow> real option"
  inside_edge_adjustment :: real
  outside_edge_adjustment :: real
  cost_per_hectare :: "string \<Rightarrow> real option"

record parcel =
  parcel_threat_status :: "threat_status option"
  parcel_habitat_condition :: habitat_condition
  inside_urban_edge :: bool

record offset_numbers =
  res_base_ratio :: real
  res_condition_multiplier :: real
  res_urban_edge_adjustment :: real
  res_required_offset_ha :: real
  res_cost_estimate :: "real option"

datatype offset_result =
    NoGo string
  | ConfigurationError string
  | Offset offset_numbers

text \<open>The configuration writes designation tokens with underscores, the enumeration with spaces.\<close>

definition canonical_key :: "string \<Rightarrow> string" where
  "canonical_key s = map (\<lambda>c. if c = CHR '' '' then CHR ''_'' else c) s"

text \<open>
  Modelled from the spec: the no-go designations of section 4.5 (Protected Area,
  Conservation Area, CBA 1a); the engine that tests them is missing from the sources.
\<close>

definition is_no_go_designation :: "cba_category \<Rightarrow> bool" where
  "is_no_go_designation d = (d = PA \<or> d = CA \<or> d = CBA_1a)"

definition no_go_reason :: "cba_category \<Rightarrow> string" where
  "no_go_reason d = ''Development is not permitted in '' @ cba_label d"

definition lookup_base_ratio :: "rule_configuration \<Rightarrow> parcel \<Rightarrow> string \<Rightarrow> real option" where
  "lookup_base_ratio cfg p k =
     (case designation_ratio cfg k of
        None \<Rightarrow> None
      | Some (Some r) \<Rightarrow> Some r
      | Some None \<Rightarrow>
          (case parcel_threat_status p of
             None \<Rightarrow> None
           | Some th \<Rightarrow> ecosystem_ratio cfg th))"

text \<open>
  Modelled from the spec: \<open>calculate_offset(parcel, proposed_footprint_area,
  resolved_designation)\<close> of section 4.5, whose implementation is missing from the
  sources. A no-go designation returns at once; otherwise the required offset is
  footprint (in hectares) times base ratio times condition multiplier times urban-edge
  adjustment, a lookup miss is a configuration error, and a cost estimate (required
  offset times cost per hectare) is reported only when the required offset is positive.
\<close>

definition calculate_offset ::
    "rule_configuration \<Rightarrow> parcel \<Rightarrow> real \<Rightarrow> cba_category \<Rightarrow> offset_result" where
  "calculate_offset cfg p footprint_sqm d =
     (if is_no_go_designation d then NoGo (no_go_reason d)
      else
        let k = canonical_key (cba_label d) in
        case lookup_base_ratio cfg p k of
          None \<Rightarrow> ConfigurationError k
        | Some ratio \<Rightarrow>
            (case condition_multipliers cfg (parcel_habitat_condition p) of
               None \<Rightarrow> ConfigurationError ''habitat_condition''
             | Some cm \<Rightarrow>
                 (let adj = (if inside_urban_edge p then inside_edge_adjustment cfg
                             else outside_edge_adjustment cfg);
                      required = footprint_sqm / 10000 * ratio * cm * adj
                  in if 0 < required
                     then (case cost_per_hectare cfg k of
                             None \<Rightarrow> ConfigurationError k
                           | Some rate \<Rightarrow>
                               Offset \<lparr>res_base_ratio = ratio, res_condition_multiplier = cm,
                                       res_urban_edge_adjustment = adj,
                                       res_required_offset_ha = required,
                                       res_cost_estimate = Some (required * rate)\<rparr>)
                     else Offset \<lparr>res_base_ratio = ratio, res_condition_multiplier = cm,
                                  res_urban_edge_adjustment = adj,
                                  res_required_offset_ha = required,
                                  res_cost_estimate = None\<rparr>)))"

fun result_numbers :: "offset_result \<Rightarrow> offset_numbers option" where
  "result_numbers (Offset n) = Some n"
| "result_numbers _ = None"

text \<open>
  Modelled from the spec: the rating band of the Net-Zero Scorecard Engine (section 4.6),
  "6-star at or above the highest threshold ... below-rated below the lowest threshold".
  The specification gives no threshold values, so the four thresholds are arguments; the
  band names are those the frontend knows (\<open>GREENSTAR_COLORS\<close>).
\<close>

fun rating_band :: "(real \<times> string) list \<Rightarrow> real \<Rightarrow> string" where
  "rating_band [] score = ''Below rated''"
| "rating_band ((threshold, band) # rest) score =
     (if threshold \<le> score then band else rating_band rest score)"

definition greenstar_rating :: "real \<Rightarrow> real \<Rightarrow> real \<Rightarrow> real \<Rightarrow> real \<Rightarrow> string" where
  "greenstar_rating t6 t5 t4 t3 score =
     rating_band [(t6, ''6-star''), (t5, ''5-star''), (t4, ''4-star''), (t3, ''3-star'')] score"

text \<open>
  The configuration of the specification's example scenario (section 8): CBA 2 has base
  ratio 3, the condition multiplier is 1.2 and the inside-edge adjustment 1.0. The
  outside-edge adjustment and the cost rate are not given there; the values below only
  serve evaluation.
\<close>

definition example_configuration :: rule_configuration where
  "example_configuration =
     \<lparr>designation_ratio = map_of [(''CBA_2'', Some 3), (''ESA_1'', None), (''ONA'', Some 0)],
      ecosystem_ratio = map_of [(EN, 20)],
      condition_multipliers = (\<lambda>c. Some (12 / 10)),
      inside_edge_adjustment = 1,
      outside_edge_adjustment = 15 / 10,
      cost_per_hectare = (\<lambda>k. Some 250000)\<rparr>"

definition example_parcel :: parcel where
  "example_parcel =
     \<lparr>parcel_threat_status = Some EN, parcel_habitat_condition = Good,
      inside_urban_edge = True\<rparr>"

text \<open>
  Modelled from the spec: the response that carries an OffsetCalculation (section 3) to
  the views, in the fields the views read; the endpoint that builds it is missing from the
  sources. \<open>offset_payload d footprint_sqm n\<close> carries the engine's result \<open>n\<close> for the
  designation \<open>d\<close>, is marked applicable and has no error. It serves evaluation only.
\<close>

definition offset_payload :: "cba_category \<Rightarrow> real \<Rightarrow> offset_numbers \<Rightarrow> offset_analysis" where
  "offset_payload d footprint_sqm n =
     \<lparr>error = None, offset_applicable = Some True, designation = Some (cba_label d),
      base_ratio = Some (res_base_ratio n),
      condition_multiplier = Some (res_condition_multiplier n),
      urban_edge_adjustment = Some (res_urban_edge_adjustment n),
      final_ratio = Some (res_base_ratio n * res_condition_multiplier n
                            * res_urban_edge_adjustment n),
      development_footprint_ha = Some (footprint_sqm / 10000),
      required_offset_ha = Some (res_required_offset_ha n),
      offset_cost_estimate_zar = res_cost_estimate n\<rparr>"

text \<open>
  Values for evaluation: \<open>example_result\<close> is the result of the specification's example
  scenario (0.18 ha, which costs 45000 at the rate above) and \<open>example_no_offset\<close> that
  of the same parcel under Other Natural Area, whose base ratio is zero.
  \<open>loaded_sidebar b opened\<close> is the sidebar after the property and the analysis \<open>b\<close> have
  arrived, its section open or not, and \<open>loaded_report b\<close> the report view after its
  payload has arrived.
\<close>

definition example_result :: offset_numbers where
  "example_result =
     \<lparr>res_base_ratio = 3, res_condition_multiplier = 12 / 10,
      res_urban_edge_adjustment = 1, res_required_offset_ha = 18 / 100,
      res_cost_estimate = Some 45000\<rparr>"

definition example_no_offset :: offset_numbers where
  "example_no_offset =
     \<lparr>res_base_ratio = 0, res_condition_multiplier = 12 / 10,
      res_urban_edge_adjustment = 1, res_required_offset_ha = 0,
      res_cost_estimate = None\<rparr>"

definition loaded_sidebar :: "offset_analysis \<Rightarrow> bool \<Rightarrow> sidebar_state" where
  "loaded_sidebar b opened =
     \<lparr>propertyId = Some 1, loading = False, property_loaded = Some \<lparr>biodiversity = None\<rparr>,
      biodiversity_analysis = Some b, offset_section_open = opened\<rparr>"

definition loaded_report :: "offset_analysis \<Rightarrow> report_state" where
  "loaded_report b =
     \<lparr>report_loading = False, report_error = None,
      report_data = Some \<lparr>bio_offset_analysis = Some b\<rparr>\<rparr>"

subsection \<open>The spatial relationship resolver, from the specification\<close>

text \<open>
  Modelled from the spec: the Spatial Relationship Resolver (section 4.4), which is not
  among the sources; it serves the biodiversity and the ecosystem layer alike. A geometry
  is the set of points it covers, \<open>area\<close> measures such sets, and a feature is an
  identifier with its geometry. For every property and every overlay polygon that
  intersects it the resolver records the overlap area (the area of the intersection) and
  the overlap percentage, "intersection area / property area \<times> 100". The two areas are
  taken with one and the same measure and are real numbers: rounding of doubles is not
  modelled. Dividing by a property area of zero fails, as it does in SQL, and the run then
  writes no row.
\<close>

type_synonym 'g feature = "int \<times> 'g set"

datatype resolver_error = Division_by_zero int

record join_row =
  row_property_id :: int
  row_overlay_id :: int
  row_overlap_area_sqm :: real
  row_overlap_pct :: real

definition intersects :: "'g feature \<times> 'g feature \<Rightarrow> bool" where
  "intersects pair = (snd (fst pair) \<inter> snd (snd pair) \<noteq> {})"

definition overlap_row ::
    "('g set \<Rightarrow> real) \<Rightarrow> 'g feature \<times> 'g feature \<Rightarrow> resolver_error + join_row" where
  "overlap_row area pair =
     (let p = fst pair; ov = snd pair; intersection_area = area (snd p \<inter> snd ov)
      in if area (snd p) = 0 then Inl (Division_by_zero (fst p))
         else Inr \<lparr>row_property_id = fst p, row_overlay_id = fst ov,
                   row_overlap_area_sqm = intersection_area,
                   row_overlap_pct = intersection_area / area (snd p) * 100\<rparr>)"

text \<open>The rows of a run, or the first failure.\<close>

fun collect_rows :: "('e + 'a) list \<Rightarrow> 'e + 'a list" where
  "collect_rows [] = Inr []"
| "collect_rows (Inl e # rest) = Inl e"
| "collect_rows (Inr r # rest) =
     (case collect_rows rest of Inl e \<Rightarrow> Inl e | Inr rows \<Rightarrow> Inr (r # rows))"

definition resolve_overlaps ::
    "('g set \<Rightarrow> real) \<Rightarrow> 'g feature list \<Rightarrow> 'g feature list
       \<Rightarrow> resolver_error + join_row list" where
  "resolve_overlaps area props overlays =
     collect_rows (map (overlap_row area) (filter intersects (List.product props overlays)))"

text \<open>
  Features for evaluation: geometries are sets of unit cells on a line and the area of one
  is the number of its cells below 100. The first parcel lies half inside the first
  overlay polygon, the second with a fifth of its area, and the third lies wholly inside
  the second polygon.
\<close>

definition cell_count :: "nat set \<Rightarrow> real" where
  "cell_count s = real (card (s \<inter> {0..<100}))"

definition example_parcels :: "nat feature list" where
  "example_parcels = [(1, {0..<4}), (2, {10..<20}), (3, {40..<50})]"

definition example_overlays :: "nat feature list" where
  "example_overlays = [(7, {2..<12}), (8, {30..<60})]"

section \<open>Properties\<close>

subsection \<open>Helper facts\<close>

lemma js_includes_Some: "js_includes xs (Some s) = (s \<in> set xs)"
  by (simp add: js_includes_def)

lemma js_includes_None: "js_includes xs None = False"
  by (simp add: js_includes_def)

lemma position_in_severity: "\<exists>i. position_in c severity_order_spec = Some i"
  by (cases c) (simp_all add: severity_order_spec_def)

lemma position_in_inj:
  "position_in a xs = Some i \<Longrightarrow> position_in b xs = Some i \<Longrightarrow> a = b"
proof (induction xs arbitrary: i)
  case Nil
  then show ?case by simp
next
  case (Cons x xs)
  then show ?case by (auto split: if_splits)
qed

lemma more_severe_positions:
  "position_in a severity_order_spec = Some i \<Longrightarrow>
   position_in b severity_order_spec = Some j \<Longrightarrow> more_severe a b = (i < j)"
  by (simp add: more_severe_def)

lemma more_severe_total: "a = b \<or> more_severe a b \<or> more_severe b a"
proof -
  obtain i where i: "position_in a severity_order_spec = Some i"
    using position_in_severity by blast
  obtain j where j: "position_in b severity_order_spec = Some j"
    using position_in_severity by blast
  consider "i < j" | "j < i" | "i = j" by linarith
  then show ?thesis
  proof cases
    case 1
    then show ?thesis using more_severe_positions [OF i j] by simp
  next
    case 2
    then show ?thesis using more_severe_positions [OF j i] by simp
  next
    case 3
    with i j have "a = b"
      using position_in_inj [of a severity_order_spec i b] by simp
    then show ?thesis by simp
  qed
qed

subsection \<open>The catalog after schema setup\<close>

lemma properties_constraints:
  "concat (map column_constraints properties_columns) =
     [PrimaryKeyOn [''id''], UniqueOn [''sg26_code'']]"
  by (simp add: properties_columns_def)

lemma biodiversity_areas_constraints:
  "concat (map column_constraints biodiversity_areas_columns) = [PrimaryKeyOn [''id'']]"
  by (simp add: biodiversity_areas_columns_def)

lemma ecosystem_types_constraints:
  "concat (map column_constraints ecosystem_types_columns) = [PrimaryKeyOn [''id'']]"
  by (simp add: ecosystem_types_columns_def)

lemma heritage_sites_constraints:
  "concat (map column_constraints heritage_sites_columns) = [PrimaryKeyOn [''id'']]"
  by (simp add: heritage_sites_columns_def)

lemma address_points_constraints:
  "concat (map column_constraints address_points_columns) = [PrimaryKeyOn [''id'']]"
  by (simp add: address_points_columns_def)

lemma property_biodiversity_constraints:
  "concat (map column_constraints property_biodiversity_columns) =
     [PrimaryKeyOn [''id''],
      ForeignKeyOn [''property_id''] ''properties'' [''id''],
      ForeignKeyOn [''biodiversity_area_id''] ''biodiversity_areas'' [''id'']]"
  by (simp add: property_biodiversity_columns_def)

lemma property_ecosystems_constraints:
  "concat (map column_constraints property_ecosystems_columns) =
     [PrimaryKeyOn [''id''],
      ForeignKeyOn [''property_id''] ''properties'' [''id''],
      ForeignKeyOn [''ecosystem_type_id''] ''ecosystem_types'' [''id'']]"
  by (simp add: property_ecosystems_columns_def)

lemmas table_constraints =
  properties_constraints biodiversity_areas_constraints ecosystem_types_constraints
  heritage_sites_constraints address_points_constraints property_biodiversity_constraints
  property_ecosystems_constraints

lemma capeeco_schema_eval:
  "capeeco_schema = Some
    [(''properties'',
      \<lparr>columns = map (elaborate_column ''properties'') properties_columns,
       constraints = [(''properties_pkey'', PrimaryKeyOn [''id'']),
                      (''properties_sg26_code_key'', UniqueOn [''sg26_code''])]\<rparr>),
     (''biodiversity_areas'',
      \<lparr>columns = map (elaborate_column ''biodiversity_areas'') biodiversity_areas_columns,
       constraints = [(''biodiversity_areas_pkey'', PrimaryKeyOn [''id''])]\<rparr>),
     (''ecosystem_types'',
      \<lparr>columns = map (elaborate_column ''ecosystem_types'') ecosystem_types_columns,
       constraints = [(''ecosystem_types_pkey'', PrimaryKeyOn [''id''])]\<rparr>),
     (''heritage_sites'',
      \<lparr>columns = map (elaborate_column ''heritage_sites'') heritage_sites_columns,
       constraints = [(''heritage_sites_pkey'', PrimaryKeyOn [''id''])]\<rparr>),
     (''address_points'',
      \<lparr>columns = map (elaborate_column ''address_points'') address_points_columns,
       constraints = [(''address_points_pkey'', PrimaryKeyOn [''id''])]\<rparr>),
     (''property_biodiversity'',
      \<lparr>columns = map (elaborate_column ''property_biodiversity'') property_biodiversity_columns,
       constraints =
         [(''property_biodiversity_pkey'', PrimaryKeyOn [''id'']),
          (''property_biodiversity_property_id_fkey'',
             ForeignKeyOn [''property_id''] ''properties'' [''id'']),
          (''property_biodiversity_biodiversity_area_id_fkey'',
             ForeignKeyOn [''biodiversity_area_id''] ''biodiversity_areas'' [''id'']),
          (''property_biodiversity_property_id_biodiversity_area_id_key'',
             UniqueOn [''property_id'', ''biodiversity_area_id''])]\<rparr>),
     (''property_ecosystems'',
      \<lparr>columns = map (elaborate_column ''property_ecosystems'') property_ecosystems_columns,
       constraints =
         [(''property_ecosystems_pkey'', PrimaryKeyOn [''id'']),
          (''property_ecosystems_property_id_fkey'',
             ForeignKeyOn [''property_id''] ''properties'' [''id'']),
          (''property_ecosystems_ecosystem_type_id_fkey'',
             ForeignKeyOn [''ecosystem_type_id''] ''ecosystem_types'' [''id'']),
          (''property_ecosystems_property_id_ecosystem_type_id_key'',
             UniqueOn [''property_id'', ''ecosystem_type_id''])]\<rparr>),
     (''staging_properties'',
      \<lparr>columns = map (elaborate_column ''properties'') properties_columns, constraints = []\<rparr>),
     (''staging_biodiversity'',
      \<lparr>columns = map (elaborate_column ''biodiversity_areas'') biodiversity_areas_columns,
       constraints = []\<rparr>),
     (''staging_ecosystem_types'',
      \<lparr>columns = map (elaborate_column ''ecosystem_types'') ecosystem_types_columns,
       constraints = []\<rparr>),
     (''staging_address_points'',
      \<lparr>columns = map (elaborate_column ''address_points'') address_points_columns,
       constraints = []\<rparr>),
     (''staging_heritage'',
      \<lparr>columns = map (elaborate_column ''heritage_sites'') heritage_sites_columns,
       constraints = []\<rparr>)]"
  by (simp add: capeeco_schema_def schema_sql_def create_properties_def
      create_biodiversity_areas_def create_ecosystem_types_def create_heritage_sites_def
      create_address_points_def create_property_biodiversity_def create_property_ecosystems_def
      elaborate_table_def named_def like_including_all_def table_constraints)

text \<open>
  Before the \<open>ALTER TABLE\<close> statements run, \<open>LIKE ... INCLUDING ALL\<close> has given
  \<open>staging_properties\<close> a primary key and a unique constraint of its own, under the names
  the statements then drop.
\<close>

lemma like_copies_key_constraints:
  "map_option (\<lambda>cat. map_option constraints (map_of cat ''staging_properties''))
     (run_ddl (take 12 schema_sql) []) =
   Some (Some [(''staging_properties_pkey'', PrimaryKeyOn [''id'']),
               (''staging_properties_sg26_code_key'', UniqueOn [''sg26_code''])])"
  by (simp add: schema_sql_def create_properties_def
      create_biodiversity_areas_def create_ecosystem_types_def create_heritage_sites_def
      create_address_points_def create_property_biodiversity_def create_property_ecosystems_def
      elaborate_table_def named_def like_including_all_def table_constraints)

lemma capeeco_catalog_eval:
  "capeeco_schema = Some capeeco_catalog"
  by (simp add: capeeco_catalog_def capeeco_schema_eval)

lemmas catalog_unfold = capeeco_catalog_def capeeco_schema_eval

subsection \<open>What an accepted insert guarantees\<close>

lemma find_append_filters_None:
  assumes "find P (filter Q xs @ filter (\<lambda>x. \<not> Q x) xs) = None" and "x \<in> set xs"
  shows "\<not> P x"
proof (cases "Q x")
  case True
  with assms(2) have "x \<in> set (filter Q xs @ filter (\<lambda>x. \<not> Q x) xs)" by simp
  with assms(1) show ?thesis unfolding find_None_iff by blast
next
  case False
  with assms(2) have "x \<in> set (filter Q xs @ filter (\<lambda>x. \<not> Q x) xs)" by simp
  with assms(1) show ?thesis unfolding find_None_iff by blast
qed

lemma insert_row_accepted:
  assumes "insert_row cat db t r = Inr db'"
  shows "\<exists>td. map_of cat t = Some td
    \<and> db' = db(t := db t @ [r])
    \<and> (\<forall>c \<in> set (columns td). col_not_null c \<longrightarrow> value_of r (col_name c) \<noteq> NULL)
    \<and> (\<forall>nk \<in> set (constraints td). \<not> violated db t r (snd nk))"
proof -
  from assms obtain td where td: "map_of cat t = Some td"
    by (auto simp: insert_row_def split: option.splits)
  from assms td have nn:
    "find (\<lambda>c. col_not_null c \<and> value_of r (col_name c) = NULL) (columns td) = None"
    by (auto simp: insert_row_def split: option.splits)
  from assms td have vi:
    "find (\<lambda>nk. violated db t r (snd nk))
       (filter (\<lambda>nk. \<not> is_foreign_key (snd nk)) (constraints td) @
        filter (\<lambda>nk. \<not> \<not> is_foreign_key (snd nk)) (constraints td)) = None"
    by (auto simp: insert_row_def split: option.splits)
  from assms td have db': "db' = db(t := db t @ [r])"
    by (auto simp: insert_row_def split: option.splits)
  have a: "\<forall>c \<in> set (columns td). col_not_null c \<longrightarrow> value_of r (col_name c) \<noteq> NULL"
    using nn unfolding find_None_iff by blast
  have b: "\<forall>nk \<in> set (constraints td). \<not> violated db t r (snd nk)"
    using find_append_filters_None [OF vi] by blast
  from td db' a b show ?thesis by blast
qed

lemma not_null_columnsD:
  "c \<in> set (not_null_columns td) \<Longrightarrow>
     \<exists>col \<in> set (columns td). col_name col = c \<and> col_not_null col"
  by (auto simp: not_null_columns_def)

lemma insert_row_not_null:
  assumes "insert_row cat db t r = Inr db'" and "map_of cat t = Some td"
    and "c \<in> set (not_null_columns td)"
  shows "value_of r c \<noteq> NULL"
proof -
  from assms(3) obtain col where col: "col \<in> set (columns td)" "col_name col = c" "col_not_null col"
    using not_null_columnsD by blast
  from insert_row_accepted [OF assms(1)] assms(2)
  have "\<forall>c \<in> set (columns td). col_not_null c \<longrightarrow> value_of r (col_name c) \<noteq> NULL"
    by auto
  with col show ?thesis by blast
qed

lemma insert_row_unviolated:
  assumes "insert_row cat db t r = Inr db'" and "map_of cat t = Some td"
    and "(n, k) \<in> set (constraints td)"
  shows "\<not> violated db t r k"
proof -
  from insert_row_accepted [OF assms(1)] assms(2)
  have "\<forall>nk \<in> set (constraints td). \<not> violated db t r (snd nk)"
    by auto
  with assms(3) show ?thesis by fastforce
qed

lemma insert_row_other_table:
  assumes "insert_row cat db t r = Inr db'" and "t' \<noteq> t"
  shows "db' t' = db t'"
proof -
  from insert_row_accepted [OF assms(1)] have "db' = db(t := db t @ [r])" by blast
  with assms(2) show ?thesis by simp
qed

lemma insert_row_same_table:
  assumes "insert_row cat db t r = Inr db'"
  shows "db' t = db t @ [r]"
proof -
  from insert_row_accepted [OF assms] have "db' = db(t := db t @ [r])" by blast
  then show ?thesis by simp
qed

lemma run_inserts_invariant:
  assumes "P db"
    and "\<And>db t r db'. P db \<Longrightarrow> insert_row cat db t r = Inr db' \<Longrightarrow> P db'"
  shows "P (run_inserts cat db stmts)"
  using assms(1)
proof (induction stmts arbitrary: db)
  case Nil
  then show ?case by simp
next
  case (Cons s stmts)
  obtain t r where s: "s = (t, r)" by (cases s)
  show ?case
  proof (cases "insert_row cat db t r")
    case (Inl e)
    with Cons s show ?thesis by simp
  next
    case (Inr db')
    with Cons.prems assms(2) have "P db'" by blast
    with Cons.IH Inr s show ?thesis by simp
  qed
qed

text \<open>A column marked \<open>NOT NULL\<close> is never \<open>NULL\<close> in a stored row.\<close>

lemma not_null_column_invariant:
  assumes td: "map_of cat t = Some td" and c: "c \<in> set (not_null_columns td)"
  shows "list_all (\<lambda>r. value_of r c \<noteq> NULL) (run_inserts cat empty_db stmts t)"
proof (rule run_inserts_invariant [where P = "\<lambda>db. list_all (\<lambda>r. value_of r c \<noteq> NULL) (db t)"])
  show "list_all (\<lambda>r. value_of r c \<noteq> NULL) (empty_db t)"
    by (simp add: empty_db_def)
next
  fix db t' r db'
  assume inv: "list_all (\<lambda>r. value_of r c \<noteq> NULL) (db t)"
    and ins: "insert_row cat db t' r = Inr db'"
  show "list_all (\<lambda>r. value_of r c \<noteq> NULL) (db' t)"
  proof (cases "t' = t")
    case True
    with ins td c have "value_of r c \<noteq> NULL" using insert_row_not_null by blast
    moreover from ins True have "db' t = db t @ [r]" using insert_row_same_table by blast
    ultimately show ?thesis using inv by simp
  next
    case False
    then have "t \<noteq> t'" by simp
    with ins have "db' t = db t" by (rule insert_row_other_table)
    with inv show ?thesis by simp
  qed
qed

text \<open>A unique constraint on \<open>NOT NULL\<close> columns keeps the keys of the stored rows distinct.\<close>

lemma unique_key_invariant:
  assumes td: "map_of cat t = Some td"
    and u: "(n, UniqueOn cs) \<in> set (constraints td)"
    and nn: "set cs \<subseteq> set (not_null_columns td)"
  shows "distinct (map (\<lambda>r. key_of r cs) (run_inserts cat empty_db stmts t))"
proof (rule run_inserts_invariant [where P = "\<lambda>db. distinct (map (\<lambda>r. key_of r cs) (db t))"])
  show "distinct (map (\<lambda>r. key_of r cs) (empty_db t))"
    by (simp add: empty_db_def)
next
  fix db t' r db'
  assume inv: "distinct (map (\<lambda>r. key_of r cs) (db t))"
    and ins: "insert_row cat db t' r = Inr db'"
  show "distinct (map (\<lambda>r. key_of r cs) (db' t))"
  proof (cases "t' = t")
    case True
    from ins True td u have nv: "\<not> violated db t r (UniqueOn cs)"
      using insert_row_unviolated by blast
    have nonnull: "value_of r c \<noteq> NULL" if "c \<in> set cs" for c
      using ins True td nn that insert_row_not_null by blast
    have "NULL \<notin> set (key_of r cs)"
    proof
      assume "NULL \<in> set (key_of r cs)"
      then obtain c where "c \<in> set cs" "value_of r c = NULL"
        by (auto simp: key_of_def)
      with nonnull show False by blast
    qed
    with nv have "\<not> list_ex (\<lambda>r'. key_of r' cs = key_of r cs) (db t)" by simp
    then have fresh: "key_of r cs \<notin> set (map (\<lambda>r. key_of r cs) (db t))"
      by (auto simp: list_ex_iff)
    from ins True have "db' t = db t @ [r]" using insert_row_same_table by blast
    with inv fresh show ?thesis by simp
  next
    case False
    then have "t \<noteq> t'" by simp
    with ins have "db' t = db t" by (rule insert_row_other_table)
    with inv show ?thesis by simp
  qed
qed

subsection \<open>The relations of the catalog\<close>

lemma lookup_staging:
  "map_of capeeco_catalog ''staging_properties'' =
     Some \<lparr>columns = map (elaborate_column ''properties'') properties_columns, constraints = []\<rparr>"
  "map_of capeeco_catalog ''staging_biodiversity'' =
     Some \<lparr>columns = map (elaborate_column ''biodiversity_areas'') biodiversity_areas_columns,
           constraints = []\<rparr>"
  "map_of capeeco_catalog ''staging_ecosystem_types'' =
     Some \<lparr>columns = map (elaborate_column ''ecosystem_types'') ecosystem_types_columns,
           constraints = []\<rparr>"
  "map_of capeeco_catalog ''staging_address_points'' =
     Some \<lparr>columns = map (elaborate_column ''address_points'') address_points_columns,
           constraints = []\<rparr>"
  "map_of capeeco_catalog ''staging_heritage'' =
     Some \<lparr>columns = map (elaborate_column ''heritage_sites'') heritage_sites_columns,
           constraints = []\<rparr>"
  by (simp_all add: catalog_unfold)

lemma nn_ecosystem_types:
  "map col_name (filter col_not_null (map (elaborate_column t) ecosystem_types_columns)) =
     [''id'', ''geom'']"
  by (simp add: ecosystem_types_columns_def)

lemma nn_address_points:
  "map col_name (filter col_not_null (map (elaborate_column t) address_points_columns)) =
     [''id'', ''geom'']"
  by (simp add: address_points_columns_def)

lemma nn_property_biodiversity:
  "map col_name (filter col_not_null (map (elaborate_column t) property_biodiversity_columns)) =
     [''id'', ''property_id'', ''biodiversity_area_id'', ''cba_category'']"
  by (simp add: property_biodiversity_columns_def)

lemma nn_property_ecosystems:
  "map col_name (filter col_not_null (map (elaborate_column t) property_ecosystems_columns)) =
     [''id'', ''property_id'', ''ecosystem_type_id'']"
  by (simp add: property_ecosystems_columns_def)

lemma nn_heritage_sites:
  "map col_name (filter col_not_null (map (elaborate_column t) heritage_sites_columns)) =
     [''id'', ''source'', ''geom'']"
  by (simp add: heritage_sites_columns_def)

lemma nn_biodiversity_areas:
  "map col_name (filter col_not_null (map (elaborate_column t) biodiversity_areas_columns)) =
     [''id'', ''cba_category'', ''geom'']"
  by (simp add: biodiversity_areas_columns_def)

lemma nn_properties:
  "map col_name (filter col_not_null (map (elaborate_column t) properties_columns)) =
     [''id'', ''sg26_code'', ''geom'']"
  by (simp add: properties_columns_def)

lemma lookup_production:
  "map_of capeeco_catalog ''properties'' =
     Some \<lparr>columns = map (elaborate_column ''properties'') properties_columns,
           constraints = [(''properties_pkey'', PrimaryKeyOn [''id'']),
                          (''properties_sg26_code_key'', UniqueOn [''sg26_code''])]\<rparr>"
  "map_of capeeco_catalog ''biodiversity_areas'' =
     Some \<lparr>columns = map (elaborate_column ''biodiversity_areas'') biodiversity_areas_columns,
           constraints = [(''biodiversity_areas_pkey'', PrimaryKeyOn [''id''])]\<rparr>"
  "map_of capeeco_catalog ''ecosystem_types'' =
     Some \<lparr>columns = map (elaborate_column ''ecosystem_types'') ecosystem_types_columns,
           constraints = [(''ecosystem_types_pkey'', PrimaryKeyOn [''id''])]\<rparr>"
  "map_of capeeco_catalog ''address_points'' =
     Some \<lparr>columns = map (elaborate_column ''address_points'') address_points_columns,
           constraints = [(''address_points_pkey'', PrimaryKeyOn [''id''])]\<rparr>"
  "map_of capeeco_catalog ''heritage_sites'' =
     Some \<lparr>columns = map (elaborate_column ''heritage_sites'') heritage_sites_columns,
           constraints = [(''heritage_sites_pkey'', PrimaryKeyOn [''id''])]\<rparr>"
  by (simp_all add: catalog_unfold)

lemma staging_all_geom_not_null:
  "list_all (has_not_null_geom capeeco_catalog) (map fst staging_tables)"
  by (simp add: staging_tables_def has_not_null_geom_def lookup_staging not_null_columns_def
      nn_properties nn_biodiversity_areas nn_ecosystem_types nn_address_points
      nn_heritage_sites)

lemma staging_geom_not_null:
  assumes "t \<in> set (map fst staging_tables)"
  shows "\<exists>td. map_of capeeco_catalog t = Some td \<and> ''geom'' \<in> set (not_null_columns td)"
proof -
  from staging_all_geom_not_null assms have "has_not_null_geom capeeco_catalog t"
    unfolding list_all_iff by blast
  then show ?thesis
    unfolding has_not_null_geom_def by (cases "map_of capeeco_catalog t") simp_all
qed

lemma columns_names_properties:
  "map col_name (map (elaborate_column t) properties_columns) =
    [''id'', ''objectid'', ''sg26_code'', ''sl_parcel_key'', ''erf_number'', ''address_number'',
     ''address_suffix'', ''street_name'', ''street_type'', ''suburb'', ''alt_suburb_name'',
     ''ward'', ''subcouncil'', ''legal_status'', ''zoning_raw'', ''zoning_primary'',
     ''area_sqm'', ''area_ha'', ''centroid_lon'', ''centroid_lat'', ''full_address'',
     ''geom'', ''created_at'']"
  by (simp add: properties_columns_def)

lemma lookup_property_biodiversity:
  "map_of capeeco_catalog ''property_biodiversity'' =
     Some \<lparr>columns = map (elaborate_column ''property_biodiversity'') property_biodiversity_columns,
       constraints =
         [(''property_biodiversity_pkey'', PrimaryKeyOn [''id'']),
          (''property_biodiversity_property_id_fkey'',
             ForeignKeyOn [''property_id''] ''properties'' [''id'']),
          (''property_biodiversity_biodiversity_area_id_fkey'',
             ForeignKeyOn [''biodiversity_area_id''] ''biodiversity_areas'' [''id'']),
          (''property_biodiversity_property_id_biodiversity_area_id_key'',
             UniqueOn [''property_id'', ''biodiversity_area_id''])]\<rparr>"
  by (simp add: catalog_unfold)

lemma lookup_property_ecosystems:
  "map_of capeeco_catalog ''property_ecosystems'' =
     Some \<lparr>columns = map (elaborate_column ''property_ecosystems'') property_ecosystems_columns,
       constraints =
         [(''property_ecosystems_pkey'', PrimaryKeyOn [''id'']),
          (''property_ecosystems_property_id_fkey'',
             ForeignKeyOn [''property_id''] ''properties'' [''id'']),
          (''property_ecosystems_ecosystem_type_id_fkey'',
             ForeignKeyOn [''ecosystem_type_id''] ''ecosystem_types'' [''id'']),
          (''property_ecosystems_property_id_ecosystem_type_id_key'',
             UniqueOn [''property_id'', ''ecosystem_type_id''])]\<rparr>"
  by (simp add: catalog_unfold)

lemma biodiversity_pairs_unique:
  "distinct (map (\<lambda>r. key_of r [''property_id'', ''biodiversity_area_id''])
     (run_inserts capeeco_catalog empty_db stmts ''property_biodiversity''))"
proof (rule unique_key_invariant [OF lookup_property_biodiversity])
  show "(''property_biodiversity_property_id_biodiversity_area_id_key'',
           UniqueOn [''property_id'', ''biodiversity_area_id''])
        \<in> set (constraints
             \<lparr>columns = map (elaborate_column ''property_biodiversity'') property_biodiversity_columns,
              constraints =
                [(''property_biodiversity_pkey'', PrimaryKeyOn [''id'']),
                 (''property_biodiversity_property_id_fkey'',
                    ForeignKeyOn [''property_id''] ''properties'' [''id'']),
                 (''property_biodiversity_biodiversity_area_id_fkey'',
                    ForeignKeyOn [''biodiversity_area_id''] ''biodiversity_areas'' [''id'']),
                 (''property_biodiversity_property_id_biodiversity_area_id_key'',
                    UniqueOn [''property_id'', ''biodiversity_area_id''])]\<rparr>)"
    by simp
next
  show "set [''property_id'', ''biodiversity_area_id'']
        \<subseteq> set (not_null_columns
             \<lparr>columns = map (elaborate_column ''property_biodiversity'') property_biodiversity_columns,
              constraints =
                [(''property_biodiversity_pkey'', PrimaryKeyOn [''id'']),
                 (''property_biodiversity_property_id_fkey'',
                    ForeignKeyOn [''property_id''] ''properties'' [''id'']),
                 (''property_biodiversity_biodiversity_area_id_fkey'',
                    ForeignKeyOn [''biodiversity_area_id''] ''biodiversity_areas'' [''id'']),
                 (''property_biodiversity_property_id_biodiversity_area_id_key'',
                    UniqueOn [''property_id'', ''biodiversity_area_id''])]\<rparr>)"
    by (simp add: not_null_columns_def nn_property_biodiversity)
qed

lemma ecosystem_pairs_unique:
  "distinct (map (\<lambda>r. key_of r [''property_id'', ''ecosystem_type_id''])
     (run_inserts capeeco_catalog empty_db stmts ''property_ecosystems''))"
proof (rule unique_key_invariant [OF lookup_property_ecosystems])
  show "(''property_ecosystems_property_id_ecosystem_type_id_key'',
           UniqueOn [''property_id'', ''ecosystem_type_id''])
        \<in> set (constraints
             \<lparr>columns = map (elaborate_column ''property_ecosystems'') property_ecosystems_columns,
              constraints =
                [(''property_ecosystems_pkey'', PrimaryKeyOn [''id'']),
                 (''property_ecosystems_property_id_fkey'',
                    ForeignKeyOn [''property_id''] ''properties'' [''id'']),
                 (''property_ecosystems_ecosystem_type_id_fkey'',
                    ForeignKeyOn [''ecosystem_type_id''] ''ecosystem_types'' [''id'']),
                 (''property_ecosystems_property_id_ecosystem_type_id_key'',
                    UniqueOn [''property_id'', ''ecosystem_type_id''])]\<rparr>)"
    by simp
next
  show "set [''property_id'', ''ecosystem_type_id'']
        \<subseteq> set (not_null_columns
             \<lparr>columns = map (elaborate_column ''property_ecosystems'') property_ecosystems_columns,
              constraints =
                [(''property_ecosystems_pkey'', PrimaryKeyOn [''id'']),
                 (''property_ecosystems_property_id_fkey'',
                    ForeignKeyOn [''property_id''] ''properties'' [''id'']),
                 (''property_ecosystems_ecosystem_type_id_fkey'',
                    ForeignKeyOn [''ecosystem_type_id''] ''ecosystem_types'' [''id'']),
                 (''property_ecosystems_property_id_ecosystem_type_id_key'',
                    UniqueOn [''property_id'', ''ecosystem_type_id''])]\<rparr>)"
    by (simp add: not_null_columns_def nn_property_ecosystems)
qed

subsection \<open>The offset panels and the rule engines\<close>

lemma calculate_offset_example:
  "calculate_offset example_configuration example_parcel 500 CBA_2 = Offset example_result"
  by (simp add: calculate_offset_def is_no_go_designation_def canonical_key_def
      lookup_base_ratio_def example_configuration_def example_parcel_def Let_def
      example_result_def)

lemma calculate_offset_example_zero:
  "calculate_offset example_configuration example_parcel 500 ONA = Offset example_no_offset"
  by (simp add: calculate_offset_def is_no_go_designation_def canonical_key_def
      lookup_base_ratio_def example_configuration_def example_parcel_def Let_def
      example_no_offset_def)

lemma example_rates:
  "\<forall>k rate. cost_per_hectare example_configuration k = Some rate \<longrightarrow> 0 < rate"
  by (simp add: example_configuration_def)

lemma calculate_offset_cost:
  assumes "calculate_offset cfg p footprint_sqm d = Offset n"
  shows "(0 < res_required_offset_ha n \<longrightarrow>
            (\<exists>rate. cost_per_hectare cfg (canonical_key (cba_label d)) = Some rate
               \<and> res_cost_estimate n = Some (res_required_offset_ha n * rate)))
       \<and> (\<not> 0 < res_required_offset_ha n \<longrightarrow> res_cost_estimate n = None)"
  using assms
  by (auto simp add: calculate_offset_def Let_def split: if_splits option.splits)

lemma cost_reported_iff:
  assumes "calculate_offset cfg p footprint_sqm d = Offset n"
  shows "(res_cost_estimate n \<noteq> None) = (0 < res_required_offset_ha n)"
  using calculate_offset_cost [OF assms] by auto

lemma cost_positive_iff:
  assumes engine: "calculate_offset cfg p footprint_sqm d = Offset n"
      and rates: "\<forall>k rate. cost_per_hectare cfg k = Some rate \<longrightarrow> 0 < rate"
  shows "js_gt0 (res_cost_estimate n) = (0 < res_required_offset_ha n)"
proof (cases "0 < res_required_offset_ha n")
  case True
  with calculate_offset_cost [OF engine] obtain rate
    where rate: "cost_per_hectare cfg (canonical_key (cba_label d)) = Some rate"
      and cost: "res_cost_estimate n = Some (res_required_offset_ha n * rate)"
    by auto
  from rates rate have "0 < rate" by simp
  with True cost show ?thesis by (simp add: js_gt0_def)
next
  case False
  with calculate_offset_cost [OF engine] have "res_cost_estimate n = None" by simp
  with False show ?thesis by (simp add: js_gt0_def)
qed

lemma cost_in_rows:
  "(''Est. Cost'' \<in> set (offset_requirement_rows b)) = js_gt0 (offset_cost_estimate_zar b)"
  by (simp add: offset_requirement_rows_def)

lemma cost_displayed_sidebar:
  "cost_displayed (sidebar_offset_panel st) =
     (truthy_id (propertyId st) \<and> \<not> loading st \<and> property_loaded st \<noteq> None
      \<and> (case biodiversity_analysis st of
            None \<Rightarrow> False
          | Some b \<Rightarrow> \<not> truthy_string (error b) \<and> truthy_bool (offset_applicable b)
              \<and> offset_section_open st \<and> js_gt0 (offset_cost_estimate_zar b)))"
  by (simp add: cost_displayed_def sidebar_offset_panel_def Section_def cost_in_rows
      split: option.splits)

lemma cost_displayed_report:
  "cost_displayed (report_offset_panel (Some b)) =
     (truthy_bool (offset_applicable b) \<and> js_gt0 (offset_cost_estimate_zar b))"
  by (simp add: cost_displayed_def report_offset_panel_def)

lemma cost_displayed_ReportView:
  "cost_displayed (ReportView_offset_panel rs) =
     (\<not> report_loading rs \<and> \<not> truthy_string (report_error rs)
      \<and> (case report_data rs of
            None \<Rightarrow> False
          | Some d \<Rightarrow>
              (case bio_offset_analysis d of
                 None \<Rightarrow> False
               | Some b \<Rightarrow> truthy_bool (offset_applicable b) \<and> js_gt0 (offset_cost_estimate_zar b))))"
  by (simp add: ReportView_offset_panel_def cost_displayed_report split: option.splits)
     (simp add: cost_displayed_def report_offset_panel_def)

lemma bioStatus_no_go_label:
  "(bioStatus (Some \<lparr>biodiversity = Some (\<lparr>cba_category = Some (cba_label d), overlap_pct = pct\<rparr> # rest)\<rparr>)
      = ''no-go'') = is_no_go_designation d"
  by (cases d) (simp_all add: bioStatus_def Let_def js_includes_def is_no_go_designation_def)

lemma rating_band_range:
  "greenstar_rating t6 t5 t4 t3 score \<in> set (map fst GREENSTAR_COLORS)"
  by (simp add: greenstar_rating_def GREENSTAR_COLORS_def)

subsection \<open>The resolver\<close>

lemma collect_rows_Inr: "collect_rows xs = Inr rows \<Longrightarrow> xs = map Inr rows"
proof (induction xs arbitrary: rows rule: collect_rows.induct)
  case 1 then show ?case by simp
next
  case (2 e rest) then show ?case by simp
next
  case (3 r rest) then show ?case by (auto split: sum.splits)
qed

lemma collect_rows_Inl: "collect_rows xs = Inl e \<Longrightarrow> Inl e \<in> set xs"
proof (induction xs rule: collect_rows.induct)
  case 1 then show ?case by simp
next
  case (2 e' rest) then show ?case by simp
next
  case (3 r rest) then show ?case by (simp split: sum.splits)
qed

lemma overlap_row_Inr:
  assumes "overlap_row area pair = Inr r"
  shows "area (snd (fst pair)) \<noteq> 0
    \<and> (row_property_id r, row_overlay_id r) = (fst (fst pair), fst (snd pair))
    \<and> row_overlap_pct r
        = area (snd (fst pair) \<inter> snd (snd pair)) / area (snd (fst pair)) * 100"
  using assms by (auto simp add: overlap_row_def Let_def split: if_splits)

lemma overlap_row_Inl:
  assumes "overlap_row area pair = Inl e"
  shows "area (snd (fst pair)) = 0"
  using assms by (simp add: overlap_row_def Let_def split: if_splits)

lemma percent_of_part:
  fixes part whole :: real
  assumes "0 \<le> part" "part \<le> whole" "whole \<noteq> 0"
  shows "0 \<le> part / whole * 100 \<and> part / whole * 100 \<le> 100"
proof -
  from assms have "0 < whole" by simp
  with assms show ?thesis by (simp add: field_simps)
qed

lemma resolve_overlaps_rows:
  assumes "resolve_overlaps area props overlays = Inr rows"
  shows "map Inr rows
           = map (overlap_row area) (filter intersects (List.product props overlays))"
  using collect_rows_Inr [OF assms [unfolded resolve_overlaps_def]] by simp

lemma rows_of_pairs:
  "map Inr rows = map (overlap_row area) pairs \<Longrightarrow>
     map (\<lambda>r. (row_property_id r, row_overlay_id r)) rows
       = map (\<lambda>pair. (fst (fst pair), fst (snd pair))) pairs"
proof (induction rows arbitrary: pairs)
  case Nil then show ?case by simp
next
  case (Cons r rows)
  then obtain pair rest where pairs: "pairs = pair # rest" by (cases pairs) auto
  with Cons.prems have r: "overlap_row area pair = Inr r"
    and rest: "map Inr rows = map (overlap_row area) rest"
    by simp_all
  from overlap_row_Inr [OF r] Cons.IH [OF rest] pairs show ?case by simp
qed

lemma product_identifiers:
  "map (\<lambda>pair. (fst (fst pair), fst (snd pair))) (List.product xs ys)
     = List.product (map fst xs) (map fst ys)"
  by (induction xs) (simp_all add: comp_def)

lemma resolved_rows_in_range:
  assumes nonneg: "\<forall>a. 0 \<le> area a"
      and mono: "\<forall>a b. a \<subseteq> b \<longrightarrow> area a \<le> area b"
      and run: "resolve_overlaps area props overlays = Inr rows"
  shows "list_all (\<lambda>r. 0 \<le> row_overlap_pct r \<and> row_overlap_pct r \<le> 100) rows"
proof -
  have "0 \<le> row_overlap_pct r \<and> row_overlap_pct r \<le> 100" if "r \<in> set rows" for r
  proof -
    from resolve_overlaps_rows [OF run, symmetric]
    have "Inr r \<in> set (map (overlap_row area)
                    (filter intersects (List.product props overlays)))"
      by (simp add: that)
    then have "Inr r \<in> overlap_row area ` set (filter intersects (List.product props overlays))"
      by (simp only: set_map)
    then obtain pair where "Inr r = overlap_row area pair" by (rule imageE)
    then have "overlap_row area pair = Inr r" by (rule sym)
    from overlap_row_Inr [OF this]
    have nz: "area (snd (fst pair)) \<noteq> 0"
      and pct: "row_overlap_pct r
                  = area (snd (fst pair) \<inter> snd (snd pair)) / area (snd (fst pair)) * 100"
      by simp_all
    from mono have le: "area (snd (fst pair) \<inter> snd (snd pair)) \<le> area (snd (fst pair))"
      by simp
    from nonneg have ge: "0 \<le> area (snd (fst pair) \<inter> snd (snd pair))" by simp
    show ?thesis unfolding pct by (rule percent_of_part [OF ge le nz])
  qed
  then show ?thesis by (simp add: list_all_iff)
qed

lemma resolved_rows_distinct:
  assumes run: "resolve_overlaps area props overlays = Inr rows"
      and ids: "distinct (map fst props)" "distinct (map fst overlays)"
  shows "distinct (map (\<lambda>r. (row_property_id r, row_overlay_id r)) rows)"
proof -
  from rows_of_pairs [OF resolve_overlaps_rows [OF run]]
  have "map (\<lambda>r. (row_property_id r, row_overlay_id r)) rows
          = map (\<lambda>pair. (fst (fst pair), fst (snd pair)))
              (filter intersects (List.product props overlays))" .
  moreover from ids
  have "distinct (map (\<lambda>pair. (fst (fst pair), fst (snd pair))) (List.product props overlays))"
    by (simp add: product_identifiers distinct_product)
  ultimately show ?thesis by (simp add: distinct_map_filter)
qed

lemma resolve_overlaps_Inl:
  assumes "resolve_overlaps area props overlays = Inl e"
  shows "\<exists>p \<in> set props. area (snd p) = 0"
proof -
  from collect_rows_Inl [OF assms [unfolded resolve_overlaps_def]]
  have "Inl e \<in> overlap_row area ` set (filter intersects (List.product props overlays))"
    by simp
  then obtain pair where pair: "pair \<in> set (List.product props overlays)"
      and row: "overlap_row area pair = Inl e"
    by auto
  from pair have "fst pair \<in> set props" by (simp add: mem_Times_iff)
  with overlap_row_Inl [OF row] show ?thesis by blast
qed

lemma cell_count_nonneg: "\<forall>a. 0 \<le> cell_count a"
  by (simp add: cell_count_def)

lemma cell_count_mono: "\<forall>a b. a \<subseteq> b \<longrightarrow> cell_count a \<le> cell_count b"
  by (auto simp add: cell_count_def intro!: card_mono)

lemma cell_count_interval: "b \<le> 100 \<Longrightarrow> cell_count {a..<b} = real (b - a)"
  by (simp add: cell_count_def Int_absorb2)

lemma interval_Int: "{a..<b} \<inter> {c..<d} = {max a c..<min b d}" for a b c d :: nat
  by auto

lemma resolve_overlaps_example:
  "resolve_overlaps cell_count example_parcels example_overlays
     = Inr [\<lparr>row_property_id = 1, row_overlay_id = 7, row_overlap_area_sqm = 2,
              row_overlap_pct = 50\<rparr>,
            \<lparr>row_property_id = 2, row_overlay_id = 7, row_overlap_area_sqm = 2,
              row_overlap_pct = 20\<rparr>,
            \<lparr>row_property_id = 3, row_overlay_id = 8, row_overlap_area_sqm = 10,
              row_overlap_pct = 100\<rparr>]"
  by (simp add: resolve_overlaps_def intersects_def overlap_row_def Let_def interval_Int
      cell_count_interval example_parcels_def example_overlays_def)

subsection \<open>The severity order\<close>

text \<open>
  Claim C2. The severity order PA > CA > CBA 1a > CBA 1b > CBA 1c > CBA 2 > ESA 1 >
  ESA 2 > ONA is a strict total order on the nine categories: no category is more severe
  than itself, the relation is transitive, and two different categories are always
  comparable. It is the order PostgreSQL gives the enumeration \<open>capeeco.cba_category\<close>
  (the order of declaration), and the keys of the frontend's \<open>CBA_COLORS\<close> table are the
  nine labels in the same order.
\<close>

theorem severity_strict_total_order:
  "\<not> more_severe a a
   \<and> (more_severe a b \<and> more_severe b c \<longrightarrow> more_severe a c)
   \<and> (a = b \<or> more_severe a b \<or> more_severe b a)
   \<and> more_severe PA CA \<and> more_severe CA CBA_1a \<and> more_severe CBA_1a CBA_1b
   \<and> more_severe CBA_1b CBA_1c \<and> more_severe CBA_1c CBA_2 \<and> more_severe CBA_2 ESA_1
   \<and> more_severe ESA_1 ESA_2 \<and> more_severe ESA_2 ONA
   \<and> more_severe a b = enum_lt a b
   \<and> severity_order_spec = cba_category_enum
   \<and> map fst CBA_COLORS = map cba_label cba_category_enum"
proof -
  have irrefl: "\<not> more_severe a a"
    by (simp add: more_severe_def split: option.splits)
  have trans: "more_severe a b \<and> more_severe b c \<longrightarrow> more_severe a c"
    by (auto simp: more_severe_def split: option.splits)
  have chain: "more_severe PA CA \<and> more_severe CA CBA_1a \<and> more_severe CBA_1a CBA_1b
     \<and> more_severe CBA_1b CBA_1c \<and> more_severe CBA_1c CBA_2 \<and> more_severe CBA_2 ESA_1
     \<and> more_severe ESA_1 ESA_2 \<and> more_severe ESA_2 ONA"
    by (simp add: more_severe_def severity_order_spec_def)
  have enum: "more_severe a b = enum_lt a b"
    by (simp add: more_severe_def enum_lt_def enum_position_def severity_order_spec_def
        cba_category_enum_def)
  have decl: "severity_order_spec = cba_category_enum"
    by (simp add: severity_order_spec_def cba_category_enum_def)
  have keys: "map fst CBA_COLORS = map cba_label cba_category_enum"
    by (simp add: CBA_COLORS_def cba_category_enum_def)
  from irrefl trans more_severe_total chain enum decl keys show ?thesis
    by blast
qed

theorem severity_strict_total_order_witness:
  "more_severe PA CBA_2 \<and> more_severe CBA_2 ONA \<and> more_severe PA ONA
   \<and> \<not> more_severe ONA ONA \<and> enum_lt PA ONA"
proof -
  have pa: "more_severe PA CBA_2" and ob: "more_severe CBA_2 ONA"
    by (simp_all add: more_severe_def severity_order_spec_def)
  from severity_strict_total_order [of PA CBA_2 ONA] pa ob
  have "more_severe PA ONA" by blast
  moreover from severity_strict_total_order [of ONA] have "\<not> more_severe ONA ONA" by blast
  moreover from severity_strict_total_order [of PA ONA] \<open>more_severe PA ONA\<close>
  have "enum_lt PA ONA" by blast
  ultimately show ?thesis using pa ob by blast
qed

subsection \<open>The biodiversity badge\<close>

text \<open>
  Claim C9. The sidebar's biodiversity status is a total function of the category of the
  first entry of \<open>property.biodiversity\<close>: it is always one of the four statuses; a
  property that is not loaded, a missing list and an empty list give \<open>clear\<close>; PA, CA and
  CBA 1a give \<open>no-go\<close>, CBA 1b and CBA 1c give \<open>exceptional\<close>, CBA 2, ESA 1 and ESA 2 give
  \<open>offset\<close>, every other value of the category (a missing one included) gives \<open>clear\<close>;
  the entries after the first never change the status, and the badge has a style for
  every status.
\<close>

theorem bioStatus_first_entry:
  "bioStatus property \<in> {''no-go'', ''exceptional'', ''offset'', ''clear''}
   \<and> bioStatus None = ''clear''
   \<and> bioStatus (Some \<lparr>biodiversity = None\<rparr>) = ''clear''
   \<and> bioStatus (Some \<lparr>biodiversity = Some []\<rparr>) = ''clear''
   \<and> (bioStatus (Some \<lparr>biodiversity = Some (first # rest)\<rparr>) = ''no-go'')
       = (cba_category first \<in> {Some ''PA'', Some ''CA'', Some ''CBA 1a''})
   \<and> (bioStatus (Some \<lparr>biodiversity = Some (first # rest)\<rparr>) = ''exceptional'')
       = (cba_category first \<in> {Some ''CBA 1b'', Some ''CBA 1c''})
   \<and> (bioStatus (Some \<lparr>biodiversity = Some (first # rest)\<rparr>) = ''offset'')
       = (cba_category first \<in> {Some ''CBA 2'', Some ''ESA 1'', Some ''ESA 2''})
   \<and> (bioStatus (Some \<lparr>biodiversity = Some (first # rest)\<rparr>) = ''clear'')
       = (cba_category first \<notin> {Some ''PA'', Some ''CA'', Some ''CBA 1a'', Some ''CBA 1b'',
            Some ''CBA 1c'', Some ''CBA 2'', Some ''ESA 1'', Some ''ESA 2''})
   \<and> bioStatus (Some \<lparr>biodiversity = Some (first # rest)\<rparr>)
       = bioStatus (Some \<lparr>biodiversity = Some [first]\<rparr>)
   \<and> Badge (bioStatus property) = map_of BIO_STATUS (bioStatus property)
   \<and> Badge (bioStatus property) \<noteq> None"
proof -
  have range: "bioStatus property \<in> {''no-go'', ''exceptional'', ''offset'', ''clear''}"
    by (simp add: bioStatus_def Let_def split: option.splits list.splits)
  have empty: "bioStatus None = ''clear''"
    "bioStatus (Some \<lparr>biodiversity = None\<rparr>) = ''clear''"
    "bioStatus (Some \<lparr>biodiversity = Some []\<rparr>) = ''clear''"
    by (simp_all add: bioStatus_def)
  have nogo: "(bioStatus (Some \<lparr>biodiversity = Some (first # rest)\<rparr>) = ''no-go'')
       = (cba_category first \<in> {Some ''PA'', Some ''CA'', Some ''CBA 1a''})"
    by (cases "cba_category first") (auto simp add: bioStatus_def Let_def js_includes_def)
  have exc: "(bioStatus (Some \<lparr>biodiversity = Some (first # rest)\<rparr>) = ''exceptional'')
       = (cba_category first \<in> {Some ''CBA 1b'', Some ''CBA 1c''})"
    by (cases "cba_category first") (auto simp add: bioStatus_def Let_def js_includes_def)
  have off: "(bioStatus (Some \<lparr>biodiversity = Some (first # rest)\<rparr>) = ''offset'')
       = (cba_category first \<in> {Some ''CBA 2'', Some ''ESA 1'', Some ''ESA 2''})"
    by (cases "cba_category first") (auto simp add: bioStatus_def Let_def js_includes_def)
  have clear: "(bioStatus (Some \<lparr>biodiversity = Some (first # rest)\<rparr>) = ''clear'')
       = (cba_category first \<notin> {Some ''PA'', Some ''CA'', Some ''CBA 1a'', Some ''CBA 1b'',
            Some ''CBA 1c'', Some ''CBA 2'', Some ''ESA 1'', Some ''ESA 2''})"
    by (cases "cba_category first") (auto simp add: bioStatus_def Let_def js_includes_def)
  have only_first: "bioStatus (Some \<lparr>biodiversity = Some (first # rest)\<rparr>)
       = bioStatus (Some \<lparr>biodiversity = Some [first]\<rparr>)"
    by (simp add: bioStatus_def)
  have badge: "Badge (bioStatus property) = map_of BIO_STATUS (bioStatus property)
     \<and> Badge (bioStatus property) \<noteq> None"
    using range by (auto simp add: Badge_def BIO_STATUS_def)
  from range empty nogo exc off clear only_first badge show ?thesis
    by blast
qed

subsection \<open>The score bars\<close>

text \<open>
  Claim C10. For a score bar or a score gauge with a maximum \<open>max > 0\<close> and a numeric
  score, the fill percentage is \<open>min((score / max) * 100, 100)\<close>, so it never exceeds 100,
  also when the score exceeds the maximum; the report's gauge gives 0 when its maximum
  is 0, whatever the score.
\<close>

theorem score_fill_capped:
  "0 < mx \<longrightarrow>
     ScoreBar_pct (JNumber score) mx = Num (min (score / mx * 100) 100)
     \<and> ScoreGauge_pct (JNumber score) mx = Num (min (score / mx * 100) 100)
     \<and> min (score / mx * 100) 100 \<le> 100
     \<and> (mx < score \<longrightarrow> ScoreBar_pct (JNumber score) mx = Num 100
                       \<and> ScoreGauge_pct (JNumber score) mx = Num 100)
     \<and> ScoreGauge_pct any_score 0 = Num 0"
proof
  assume pos: "0 < mx"
  have bar: "ScoreBar_pct (JNumber score) mx = Num (min (score / mx * 100) 100)"
    using pos by (simp add: ScoreBar_pct_def)
  have gauge: "ScoreGauge_pct (JNumber score) mx = Num (min (score / mx * 100) 100)"
    using pos by (simp add: ScoreGauge_pct_def)
  have over: "min (score / mx * 100) 100 = 100" if "mx < score"
  proof -
    from that pos have "1 < score / mx" by simp
    then have "1 * 100 < score / mx * 100" by (rule mult_strict_right_mono) simp
    then show ?thesis by simp
  qed
  have zero: "ScoreGauge_pct any_score 0 = Num 0"
    by (simp add: ScoreGauge_pct_def)
  from bar gauge over zero
  show "ScoreBar_pct (JNumber score) mx = Num (min (score / mx * 100) 100)
     \<and> ScoreGauge_pct (JNumber score) mx = Num (min (score / mx * 100) 100)
     \<and> min (score / mx * 100) 100 \<le> 100
     \<and> (mx < score \<longrightarrow> ScoreBar_pct (JNumber score) mx = Num 100
                       \<and> ScoreGauge_pct (JNumber score) mx = Num 100)
     \<and> ScoreGauge_pct any_score 0 = Num 0"
    by simp
qed

theorem score_fill_capped_witness:
  "ScoreBar_pct (JNumber 40) 35 = Num 100 \<and> ScoreGauge_pct (JNumber 40) 35 = Num 100
   \<and> ScoreBar_pct (JNumber 14) 35 = Num 40 \<and> ScoreGauge_pct JUndefined 0 = Num 0"
proof -
  have over: "ScoreBar_pct (JNumber 40) 35 = Num 100 \<and> ScoreGauge_pct (JNumber 40) 35 = Num 100"
    using score_fill_capped [of 35 40] by simp
  have "ScoreBar_pct (JNumber 14) 35 = Num (min (14 / 35 * 100) 100)"
    using score_fill_capped [of 35 14] by simp
  then have under: "ScoreBar_pct (JNumber 14) 35 = Num 40" by simp
  have zero: "ScoreGauge_pct JUndefined 0 = Num 0"
    using score_fill_capped [of 35 40 JUndefined] by simp
  from over under zero show ?thesis by simp
qed

subsection \<open>The staging relations\<close>

text \<open>
  Claim C4. After schema setup the five staging relations (\<open>staging_properties\<close>,
  \<open>staging_biodiversity\<close>, \<open>staging_ecosystem_types\<close>, \<open>staging_address_points\<close>,
  \<open>staging_heritage\<close>) exist and are the only staging relations; each has exactly the
  columns of its production relation (names, types, \<open>NOT NULL\<close> marks and defaults) and
  carries no primary-key, no unique and no foreign-key constraint: the script runs
  without error and the \<open>DROP CONSTRAINT\<close> statements name exactly the constraints that
  \<open>LIKE ... INCLUDING ALL\<close> copied.
\<close>

theorem staging_relations_unconstrained:
  "capeeco_schema = Some capeeco_catalog
   \<and> list_all (staging_mirrors capeeco_catalog) staging_tables
   \<and> filter (\<lambda>t. take 8 t = ''staging_'') (map fst capeeco_catalog) = map fst staging_tables"
proof -
  have mirrors: "list_all (staging_mirrors capeeco_catalog) staging_tables"
    by (simp add: staging_tables_def staging_mirrors_def lookup_staging lookup_production)
  have names: "filter (\<lambda>t. take 8 t = ''staging_'') (map fst capeeco_catalog) = map fst staging_tables"
    by (simp add: catalog_unfold staging_tables_def)
  from capeeco_catalog_eval mirrors names show ?thesis by simp
qed

text \<open>
  Claim C5, as amended. A row whose geometry is \<open>NULL\<close> cannot exist in a staging
  relation: every staging relation keeps the \<open>NOT NULL\<close> mark of its production
  relation's \<open>geom\<close> column, so an insert of such a row into any staging relation is
  rejected, and in every state reached by inserts from the empty database all rows of a
  staging relation have a geometry. Missing geometry is refused when staging is written,
  before promotion.
\<close>

theorem staging_rejects_null_geometry:
  "t \<in> set (map fst staging_tables) \<longrightarrow>
     (value_of r ''geom'' = NULL \<longrightarrow> isl (insert_row capeeco_catalog db t r))
     \<and> list_all (\<lambda>r. value_of r ''geom'' \<noteq> NULL) (run_inserts capeeco_catalog empty_db stmts t)"
proof
  assume "t \<in> set (map fst staging_tables)"
  then obtain td where td: "map_of capeeco_catalog t = Some td"
    and geom: "''geom'' \<in> set (not_null_columns td)"
    using staging_geom_not_null by blast
  have rejected: "isl (insert_row capeeco_catalog db t r)" if null: "value_of r ''geom'' = NULL"
  proof (cases "insert_row capeeco_catalog db t r")
    case (Inl e)
    then show ?thesis by simp
  next
    case (Inr db')
    from insert_row_not_null [OF Inr td geom] have "value_of r ''geom'' \<noteq> NULL" .
    with null show ?thesis by simp
  qed
  have stored: "list_all (\<lambda>r. value_of r ''geom'' \<noteq> NULL)
      (run_inserts capeeco_catalog empty_db stmts t)"
    using td geom by (rule not_null_column_invariant)
  from rejected stored
  show "(value_of r ''geom'' = NULL \<longrightarrow> isl (insert_row capeeco_catalog db t r))
     \<and> list_all (\<lambda>r. value_of r ''geom'' \<noteq> NULL) (run_inserts capeeco_catalog empty_db stmts t)"
    by simp
qed

theorem staging_rejects_null_geometry_witness:
  "isl (insert_row capeeco_catalog empty_db ''staging_properties'' (sample_parcel NULL))
   \<and> list_all (\<lambda>r. value_of r ''geom'' \<noteq> NULL)
       (run_inserts capeeco_catalog empty_db
          [(''staging_properties'', sample_parcel NULL),
           (''staging_properties'', sample_parcel (GeomV ''MultiPolygon'' 4326))]
          ''staging_properties'')"
proof -
  have t: "''staging_properties'' \<in> set (map fst staging_tables)"
    by (simp add: staging_tables_def)
  have null: "value_of (sample_parcel NULL) ''geom'' = NULL"
    by (simp add: value_of_def sample_parcel_def)
  from staging_rejects_null_geometry [of "''staging_properties''" "sample_parcel NULL" empty_db] t null
  show ?thesis by blast
qed

text \<open>
  The claim as stated fails: inserting the sample parcel with a \<open>NULL\<close> geometry into
  \<open>staging_properties\<close> is a \<open>NOT NULL\<close> violation and leaves the relation empty, while
  the same parcel with a geometry is stored.
\<close>

theorem null_geometry_in_staging_counterexample:
  "insert_row capeeco_catalog empty_db ''staging_properties'' (sample_parcel NULL)
     = Inl (NotNullViolation ''geom'')
   \<and> run_inserts capeeco_catalog empty_db [(''staging_properties'', sample_parcel NULL)]
        ''staging_properties'' = []
   \<and> run_inserts capeeco_catalog empty_db
        [(''staging_properties'', sample_parcel (GeomV ''MultiPolygon'' 4326))]
        ''staging_properties'' = [sample_parcel (GeomV ''MultiPolygon'' 4326)]"
proof -
  have rejected: "insert_row capeeco_catalog empty_db ''staging_properties'' (sample_parcel NULL)
     = Inl (NotNullViolation ''geom'')"
    by (simp add: insert_row_def lookup_staging columns_names_properties sample_parcel_def)
       (simp add: properties_columns_def value_of_def)
  have accepted: "insert_row capeeco_catalog empty_db ''staging_properties''
       (sample_parcel (GeomV ''MultiPolygon'' 4326))
     = Inr (empty_db(''staging_properties'' := [sample_parcel (GeomV ''MultiPolygon'' 4326)]))"
    by (simp add: insert_row_def lookup_staging columns_names_properties sample_parcel_def)
       (simp add: properties_columns_def value_of_def empty_db_def)
  from rejected accepted show ?thesis
    by (simp add: empty_db_def)
qed

subsection \<open>The derived join relations\<close>

text \<open>
  Claim C3. Every row that the resolver derives has an overlap percentage between 0 and
  100, whatever the parcels and the overlay polygons are, for every area measure that is
  nonnegative and monotone (an intersection has no more area than the parcel it is cut
  from); a run fails, and then writes nothing, only on a parcel whose area is zero. The
  derived rows have pairwise distinct (property, overlay) pairs when the parcels and the
  overlay polygons have distinct identifiers. In store, \<open>property_biodiversity\<close> has at
  most one row per (property, biodiversity area) pair and \<open>property_ecosystems\<close> at most
  one row per (property, ecosystem type) pair in every state reached by inserts from the
  empty database: the \<open>UNIQUE\<close> constraints of the two relations see to it.
\<close>

theorem join_rows_percent_range_unique_pairs:
  assumes nonneg: "\<forall>a. 0 \<le> area a"
      and mono: "\<forall>a b. a \<subseteq> b \<longrightarrow> area a \<le> area b"
  shows "(case resolve_overlaps area props overlays of
            Inl e \<Rightarrow> \<exists>p \<in> set props. area (snd p) = 0
          | Inr rows \<Rightarrow>
              list_all (\<lambda>r. 0 \<le> row_overlap_pct r \<and> row_overlap_pct r \<le> 100) rows
              \<and> (distinct (map fst props) \<and> distinct (map fst overlays) \<longrightarrow>
                   distinct (map (\<lambda>r. (row_property_id r, row_overlay_id r)) rows)))
       \<and> distinct (map (\<lambda>r. key_of r [''property_id'', ''biodiversity_area_id''])
           (run_inserts capeeco_catalog empty_db stmts ''property_biodiversity''))
       \<and> distinct (map (\<lambda>r. key_of r [''property_id'', ''ecosystem_type_id''])
           (run_inserts capeeco_catalog empty_db stmts ''property_ecosystems''))"
proof (intro conjI)
  show "case resolve_overlaps area props overlays of
            Inl e \<Rightarrow> \<exists>p \<in> set props. area (snd p) = 0
          | Inr rows \<Rightarrow>
              list_all (\<lambda>r. 0 \<le> row_overlap_pct r \<and> row_overlap_pct r \<le> 100) rows
              \<and> (distinct (map fst props) \<and> distinct (map fst overlays) \<longrightarrow>
                   distinct (map (\<lambda>r. (row_property_id r, row_overlay_id r)) rows))"
  proof (cases "resolve_overlaps area props overlays")
    case (Inl e)
    from resolve_overlaps_Inl [OF Inl] Inl show ?thesis by simp
  next
    case (Inr rows)
    from resolved_rows_in_range [OF nonneg mono Inr] resolved_rows_distinct [OF Inr] Inr
    show ?thesis by simp
  qed
  show "distinct (map (\<lambda>r. key_of r [''property_id'', ''biodiversity_area_id''])
     (run_inserts capeeco_catalog empty_db stmts ''property_biodiversity''))"
    by (rule biodiversity_pairs_unique)
  show "distinct (map (\<lambda>r. key_of r [''property_id'', ''ecosystem_type_id''])
     (run_inserts capeeco_catalog empty_db stmts ''property_ecosystems''))"
    by (rule ecosystem_pairs_unique)
qed

theorem join_rows_percent_range_unique_pairs_witness:
  "\<exists>rows. resolve_overlaps cell_count example_parcels example_overlays = Inr rows
     \<and> map row_overlap_pct rows = [50, 20, 100]
     \<and> list_all (\<lambda>r. 0 \<le> row_overlap_pct r \<and> row_overlap_pct r \<le> 100) rows
     \<and> distinct (map (\<lambda>r. (row_property_id r, row_overlay_id r)) rows)"
proof -
  have ids: "distinct (map fst example_parcels)" "distinct (map fst example_overlays)"
    by (simp_all add: example_parcels_def example_overlays_def)
  from join_rows_percent_range_unique_pairs
         [of cell_count example_parcels example_overlays, OF cell_count_nonneg cell_count_mono]
  have "case resolve_overlaps cell_count example_parcels example_overlays of
            Inl e \<Rightarrow> \<exists>p \<in> set example_parcels. cell_count (snd p) = 0
          | Inr rows \<Rightarrow>
              list_all (\<lambda>r. 0 \<le> row_overlap_pct r \<and> row_overlap_pct r \<le> 100) rows
              \<and> (distinct (map fst example_parcels) \<and> distinct (map fst example_overlays) \<longrightarrow>
                   distinct (map (\<lambda>r. (row_property_id r, row_overlay_id r)) rows))"
    by (rule conjunct1)
  with ids resolve_overlaps_example show ?thesis by simp
qed

subsection \<open>The offset cost estimate\<close>

text \<open>
  Claim C8. A result that the engine computes reports a cost estimate if and only if its
  required offset is strictly positive. For an analysis that carries such a result,
  computed with positive cost rates and marked applicable whenever an offset is required,
  the row "Est. Cost" is among the rows of the sidebar's offset section, and in the
  report's offset block, if and only if the required offset is strictly positive. On
  screen, the report shows the row exactly then once its payload has arrived, and the
  sidebar exactly then once the property has arrived and the section, which starts
  collapsed, is open. Without an analysis no view shows a cost estimate.
\<close>

theorem cost_estimate_iff_offset_required:
  assumes engine: "calculate_offset cfg p footprint_sqm d = Offset n"
      and rates: "\<forall>k rate. cost_per_hectare cfg k = Some rate \<longrightarrow> 0 < rate"
      and required: "required_offset_ha b = Some (res_required_offset_ha n)"
      and cost: "offset_cost_estimate_zar b = res_cost_estimate n"
      and applicable: "0 < res_required_offset_ha n \<longrightarrow>
                         truthy_bool (offset_applicable b) \<and> \<not> truthy_string (error b)"
      and sidebar: "biodiversity_analysis st = Some b"
      and report: "report_data rs = Some \<lparr>bio_offset_analysis = Some b\<rparr>"
  shows "(res_cost_estimate n \<noteq> None) = (0 < res_required_offset_ha n)
       \<and> (''Est. Cost'' \<in> set (offset_requirement_rows b)) = js_gt0 (required_offset_ha b)
       \<and> cost_displayed (report_offset_panel (Some b)) = js_gt0 (required_offset_ha b)
       \<and> cost_displayed (ReportView_offset_panel rs) =
           (\<not> report_loading rs \<and> \<not> truthy_string (report_error rs)
            \<and> js_gt0 (required_offset_ha b))
       \<and> cost_displayed (sidebar_offset_panel st) =
           (truthy_id (propertyId st) \<and> \<not> loading st \<and> property_loaded st \<noteq> None
            \<and> offset_section_open st \<and> js_gt0 (required_offset_ha b))
       \<and> \<not> cost_displayed (report_offset_panel None)
       \<and> \<not> cost_displayed (sidebar_offset_panel (st\<lparr>biodiversity_analysis := None\<rparr>))"
proof -
  from required have req: "js_gt0 (required_offset_ha b) = (0 < res_required_offset_ha n)"
    by (simp add: js_gt0_def)
  from cost_positive_iff [OF engine rates] cost
  have pos: "js_gt0 (offset_cost_estimate_zar b) = (0 < res_required_offset_ha n)"
    by simp
  have reported: "(res_cost_estimate n \<noteq> None) = (0 < res_required_offset_ha n)"
    by (rule cost_reported_iff [OF engine])
  have rows: "(''Est. Cost'' \<in> set (offset_requirement_rows b)) = js_gt0 (required_offset_ha b)"
    by (simp only: cost_in_rows pos req)
  have panel: "cost_displayed (report_offset_panel (Some b)) = js_gt0 (required_offset_ha b)"
    using applicable by (simp only: cost_displayed_report pos req) blast
  have view: "cost_displayed (ReportView_offset_panel rs) =
           (\<not> report_loading rs \<and> \<not> truthy_string (report_error rs)
            \<and> js_gt0 (required_offset_ha b))"
    using applicable report by (simp add: cost_displayed_ReportView pos req) blast
  have side: "cost_displayed (sidebar_offset_panel st) =
           (truthy_id (propertyId st) \<and> \<not> loading st \<and> property_loaded st \<noteq> None
            \<and> offset_section_open st \<and> js_gt0 (required_offset_ha b))"
    using applicable sidebar by (simp add: cost_displayed_sidebar pos req) blast
  have absent: "\<not> cost_displayed (report_offset_panel None)"
    "\<not> cost_displayed (sidebar_offset_panel (st\<lparr>biodiversity_analysis := None\<rparr>))"
    by (simp_all add: cost_displayed_sidebar) (simp add: cost_displayed_def report_offset_panel_def)
  from reported rows panel view side absent show ?thesis by simp
qed

theorem cost_estimate_iff_offset_required_witness:
  "cost_displayed (sidebar_offset_panel
       (loaded_sidebar (offset_payload CBA_2 500 example_result)
          (Section_click (Section_initial None))))
   \<and> \<not> cost_displayed (sidebar_offset_panel
         (loaded_sidebar (offset_payload CBA_2 500 example_result) (Section_initial None)))
   \<and> cost_displayed (ReportView_offset_panel (loaded_report (offset_payload CBA_2 500 example_result)))
   \<and> \<not> cost_displayed (sidebar_offset_panel (loaded_sidebar (offset_payload ONA 500 example_no_offset) True))
   \<and> \<not> cost_displayed (ReportView_offset_panel (loaded_report (offset_payload ONA 500 example_no_offset)))"
proof -
  let ?b = "offset_payload CBA_2 500 example_result"
  let ?z = "offset_payload ONA 500 example_no_offset"
  have b: "required_offset_ha ?b = Some (res_required_offset_ha example_result)"
    "offset_cost_estimate_zar ?b = res_cost_estimate example_result"
    "0 < res_required_offset_ha example_result \<longrightarrow>
       truthy_bool (offset_applicable ?b) \<and> \<not> truthy_string (error ?b)"
    by (simp_all add: offset_payload_def truthy_bool_def truthy_string_def)
  have z: "required_offset_ha ?z = Some (res_required_offset_ha example_no_offset)"
    "offset_cost_estimate_zar ?z = res_cost_estimate example_no_offset"
    "0 < res_required_offset_ha example_no_offset \<longrightarrow>
       truthy_bool (offset_applicable ?z) \<and> \<not> truthy_string (error ?z)"
    by (simp_all add: offset_payload_def truthy_bool_def truthy_string_def)
  have states: "biodiversity_analysis (loaded_sidebar x opened) = Some x"
    "report_data (loaded_report x) = Some \<lparr>bio_offset_analysis = Some x\<rparr>" for x opened
    by (simp_all add: loaded_sidebar_def loaded_report_def)
  from cost_estimate_iff_offset_required
         [OF calculate_offset_example example_rates b
             states(1) [of ?b "Section_click (Section_initial None)"] states(2) [of ?b]]
  have shown: "cost_displayed (sidebar_offset_panel
         (loaded_sidebar ?b (Section_click (Section_initial None))))
     \<and> cost_displayed (ReportView_offset_panel (loaded_report ?b))"
    by (simp add: loaded_sidebar_def loaded_report_def truthy_id_def truthy_string_def
        js_gt0_def offset_payload_def example_result_def Section_click_def
        Section_initial_def)
  from cost_estimate_iff_offset_required
         [OF calculate_offset_example example_rates b
             states(1) [of ?b "Section_initial None"] states(2) [of ?b]]
  have collapsed: "\<not> cost_displayed (sidebar_offset_panel (loaded_sidebar ?b (Section_initial None)))"
    by (simp add: loaded_sidebar_def Section_initial_def)
  from cost_estimate_iff_offset_required
         [OF calculate_offset_example_zero example_rates z states(1) [of ?z True] states(2) [of ?z]]
  have hidden: "\<not> cost_displayed (sidebar_offset_panel (loaded_sidebar ?z True))
     \<and> \<not> cost_displayed (ReportView_offset_panel (loaded_report ?z))"
    by (simp add: js_gt0_def offset_payload_def example_no_offset_def)
  from shown collapsed hidden show ?thesis by simp
qed

subsection \<open>No-go designations\<close>

text \<open>
  Claim C1. For a resolved designation of Protected Area, Conservation Area or CBA 1a
  the offset evaluation returns the no-go result, whatever the footprint, the parcel and
  the configuration: no ratio, offset area or cost is computed. The frontend classifies
  exactly these three categories as \<open>no-go\<close>: the badge is \<open>no-go\<close> if and only if the
  first entry's category is one of the three labels, and for a label of the enumeration
  if and only if the engine treats the designation as no-go.
\<close>

theorem no_go_short_circuit:
  "(is_no_go_designation d \<longrightarrow>
      calculate_offset cfg p footprint_sqm d = NoGo (no_go_reason d)
      \<and> result_numbers (calculate_offset cfg p footprint_sqm d) = None)
   \<and> is_no_go_designation d = (d \<in> {PA, CA, CBA_1a})
   \<and> (bioStatus (Some \<lparr>biodiversity = Some (\<lparr>cba_category = c, overlap_pct = pct\<rparr> # rest)\<rparr>)
        = ''no-go'') = (c \<in> {Some ''PA'', Some ''CA'', Some ''CBA 1a''})
   \<and> (bioStatus (Some \<lparr>biodiversity =
          Some (\<lparr>cba_category = Some (cba_label d), overlap_pct = pct\<rparr> # rest)\<rparr>)
        = ''no-go'') = is_no_go_designation d"
proof -
  have engine: "is_no_go_designation d \<longrightarrow>
      calculate_offset cfg p footprint_sqm d = NoGo (no_go_reason d)
      \<and> result_numbers (calculate_offset cfg p footprint_sqm d) = None"
    by (simp add: calculate_offset_def)
  have three: "is_no_go_designation d = (d \<in> {PA, CA, CBA_1a})"
    by (simp add: is_no_go_designation_def)
  have badge: "(bioStatus (Some \<lparr>biodiversity = Some (\<lparr>cba_category = c, overlap_pct = pct\<rparr> # rest)\<rparr>)
        = ''no-go'') = (c \<in> {Some ''PA'', Some ''CA'', Some ''CBA 1a''})"
    by (cases c) (auto simp add: bioStatus_def Let_def js_includes_def)
  from engine three badge bioStatus_no_go_label show ?thesis
    by simp
qed

theorem no_go_short_circuit_witness:
  "calculate_offset example_configuration example_parcel 500 CBA_1a = NoGo (no_go_reason CBA_1a)
   \<and> calculate_offset example_configuration example_parcel 1 PA = NoGo (no_go_reason PA)
   \<and> result_numbers (calculate_offset example_configuration example_parcel 1000000 CA) = None"
proof -
  have n: "is_no_go_designation CBA_1a" "is_no_go_designation PA" "is_no_go_designation CA"
    by (simp_all add: is_no_go_designation_def)
  from no_go_short_circuit [of CBA_1a example_configuration example_parcel 500] n(1)
  have a: "calculate_offset example_configuration example_parcel 500 CBA_1a
             = NoGo (no_go_reason CBA_1a)"
    by simp
  from no_go_short_circuit [of PA example_configuration example_parcel 1] n(2)
  have b: "calculate_offset example_configuration example_parcel 1 PA = NoGo (no_go_reason PA)"
    by simp
  from no_go_short_circuit [of CA example_configuration example_parcel 1000000] n(3)
  have c: "result_numbers (calculate_offset example_configuration example_parcel 1000000 CA)
             = None"
    by simp
  from a b c show ?thesis by simp
qed

subsection \<open>The Net-Zero scorecard\<close>

text \<open>
  Claim C7. The scorecard has exactly five sub-scores, energy, water, ecology, location
  and materials/innovation, with maxima 35, 25, 20, 10 and 10, which sum to the 100 the
  total is printed against; the sidebar and the report render the same five categories
  with the same maxima. The total maps to one of the bands 6-star, 5-star, 4-star,
  3-star and Below rated: 6-star exactly at or above the highest threshold, Below rated
  exactly below the lowest.
\<close>

theorem scorecard_five_categories:
  "map slot_field sidebar_score_bars =
      [''energy'', ''water'', ''ecology'', ''location'', ''materials_innovation'']
   \<and> map slot_max sidebar_score_bars = [35, 25, 20, 10, 10]
   \<and> report_score_gauges = sidebar_score_bars
   \<and> length sidebar_score_bars = 5
   \<and> sum_list (map slot_max sidebar_score_bars) = total_score_denominator
   \<and> total_score_denominator = 100
   \<and> map fst GREENSTAR_COLORS = [''6-star'', ''5-star'', ''4-star'', ''3-star'', ''Below rated'']
   \<and> greenstar_rating t6 t5 t4 t3 score \<in> set (map fst GREENSTAR_COLORS)
   \<and> (t3 \<le> t4 \<and> t4 \<le> t5 \<and> t5 \<le> t6 \<longrightarrow>
        (greenstar_rating t6 t5 t4 t3 score = ''6-star'') = (t6 \<le> score)
        \<and> (greenstar_rating t6 t5 t4 t3 score = ''Below rated'') = (score < t3))"
proof -
  have slots: "map slot_field sidebar_score_bars =
      [''energy'', ''water'', ''ecology'', ''location'', ''materials_innovation'']"
    "map slot_max sidebar_score_bars = [35, 25, 20, 10, 10]"
    "length sidebar_score_bars = 5"
    "sum_list (map slot_max sidebar_score_bars) = total_score_denominator"
    by (simp_all add: sidebar_score_bars_def total_score_denominator_def)
  have same: "report_score_gauges = sidebar_score_bars"
    by (simp add: report_score_gauges_def sidebar_score_bars_def)
  have hundred: "total_score_denominator = 100"
    by (simp add: total_score_denominator_def)
  have bands: "map fst GREENSTAR_COLORS =
      [''6-star'', ''5-star'', ''4-star'', ''3-star'', ''Below rated'']"
    by (simp add: GREENSTAR_COLORS_def)
  have ends: "t3 \<le> t4 \<and> t4 \<le> t5 \<and> t5 \<le> t6 \<longrightarrow>
        (greenstar_rating t6 t5 t4 t3 score = ''6-star'') = (t6 \<le> score)
        \<and> (greenstar_rating t6 t5 t4 t3 score = ''Below rated'') = (score < t3)"
    by (simp add: greenstar_rating_def)
  from slots same hundred bands rating_band_range ends show ?thesis
    by simp
qed

theorem scorecard_five_categories_witness:
  "greenstar_rating 75 60 45 30 100 = ''6-star''
   \<and> greenstar_rating 75 60 45 30 29 = ''Below rated''"
proof -
  from scorecard_five_categories [of 75 60 45 30 100]
  have top: "greenstar_rating 75 60 45 30 100 = ''6-star''" by simp
  from scorecard_five_categories [of 75 60 45 30 29]
  have bottom: "greenstar_rating 75 60 45 30 29 = ''Below rated''" by simp
  from top bottom show ?thesis by simp
qed

end
